theory Spec2Isabelle
  imports Complex_Main "HOL-Library.Sublist" "HOL-Library.Log_Nat" "HOL-Library.Multiset"
    "HOL-Library.Code_Target_Nat"
begin

section \<open>Python values used by reddit\_persona.py\<close>

text \<open>
  A Python string is a sequence of Unicode code points: a list of natural numbers.
  \<open>u\<close> turns a literal of the program into such a list, and \<open>cp\<close> a character of
  the program into its code point. Exceptions are values of \<open>py_error\<close>.
\<close>

type_synonym ustring = "nat list"

abbreviation cp :: "char \<Rightarrow> nat" where
  "cp c \<equiv> of_char c"

definition u :: "string \<Rightarrow> ustring" where
  "u s = map cp s"

datatype py_error = ValueError | ZeroDivisionError | OverflowError

text \<open>
  What the program reads from the Unicode character database of the interpreter
  for a code point outside ASCII. The tables are not part of the repository and are
  taken as a parameter: \<open>uni_lower s i\<close> is the lower-case form of the code point at
  index \<open>i\<close> of \<open>s\<close> (it depends on the rest of \<open>s\<close> for the Greek capital sigma
  only), \<open>uni_title c\<close> the title-case form of \<open>c\<close>, \<open>uni_word c\<close> tells whether
  \<open>c\<close> is alphanumeric, and \<open>uni_digit c\<close> is the value of \<open>c\<close> when it is a
  decimal digit. Inside ASCII the functions below are written out.
\<close>

record unicode =
  uni_lower :: "ustring \<Rightarrow> nat \<Rightarrow> ustring"
  uni_title :: "nat \<Rightarrow> ustring"
  uni_word :: "nat \<Rightarrow> bool"
  uni_digit :: "nat \<Rightarrow> nat option"

subsection \<open>str.lower, str.capitalize, substring test\<close>

definition ascii_lower :: "nat \<Rightarrow> nat" where
  "ascii_lower c = (if cp CHR ''A'' \<le> c \<and> c \<le> cp CHR ''Z'' then c + 32 else c)"

definition ascii_upper :: "nat \<Rightarrow> nat" where
  "ascii_upper c = (if cp CHR ''a'' \<le> c \<and> c \<le> cp CHR ''z'' then c - 32 else c)"

text \<open>
  \<open>s.lower()\<close>, code point by code point. \<open>lower_from U s i cs\<close> lowers the rest
  \<open>cs\<close> of \<open>s\<close> that starts at index \<open>i\<close>.
\<close>

fun lower_from :: "unicode \<Rightarrow> ustring \<Rightarrow> nat \<Rightarrow> ustring \<Rightarrow> ustring" where
  "lower_from U s i [] = []"
| "lower_from U s i (c # cs) =
     (if c < 128 then [ascii_lower c] else uni_lower U s i) @ lower_from U s (Suc i) cs"

definition lower :: "unicode \<Rightarrow> ustring \<Rightarrow> ustring" where
  "lower U s = lower_from U s 0 s"

text \<open>\<open>s.capitalize()\<close>: the first code point in title case, the rest in lower case.\<close>

definition capitalize :: "unicode \<Rightarrow> ustring \<Rightarrow> ustring" where
  "capitalize U s =
     (case s of
        [] \<Rightarrow> []
      | c # cs \<Rightarrow> (if c < 128 then [ascii_upper c] else uni_title U c) @ lower_from U s 1 cs)"

text \<open>\<open>sub in text\<close> on Python strings: \<open>sub\<close> occurs as a contiguous block.\<close>

fun str_in :: "ustring \<Rightarrow> ustring \<Rightarrow> bool" where
  "str_in sub [] = (sub = [])"
| "str_in sub (c # cs) = (prefix sub (c # cs) \<or> str_in sub cs)"

text \<open>\<open>any(w in text for w in ws)\<close>.\<close>

definition any_in :: "ustring list \<Rightarrow> ustring \<Rightarrow> bool" where
  "any_in ws text = list_ex (\<lambda>w. str_in w text) ws"

subsection \<open>str.split() and str.strip\<close>

text \<open>
  The white space of \<open>str.split()\<close> and \<open>str.strip()\<close>: the code points for which
  \<open>str.isspace\<close> holds.
\<close>

definition is_space :: "nat \<Rightarrow> bool" where
  "is_space c =
     (c \<in> set [0x09, 0x0A, 0x0B, 0x0C, 0x0D, 0x1C, 0x1D, 0x1E, 0x1F, 0x20, 0x85, 0xA0,
                0x1680, 0x2000, 0x2001, 0x2002, 0x2003, 0x2004, 0x2005, 0x2006, 0x2007,
                0x2008, 0x2009, 0x200A, 0x2028, 0x2029, 0x202F, 0x205F, 0x3000])"

text \<open>
  \<open>text.split()\<close>: the maximal runs of code points that are not white space, in
  order. The first argument is the word being read.
\<close>

fun split_ws :: "ustring \<Rightarrow> ustring \<Rightarrow> ustring list" where
  "split_ws cur [] = (if cur = [] then [] else [cur])"
| "split_ws cur (c # cs) =
     (if is_space c then (if cur = [] then [] else [cur]) @ split_ws [] cs
      else split_ws (cur @ [c]) cs)"

definition split :: "ustring \<Rightarrow> ustring list" where
  "split text = split_ws [] text"

text \<open>\<open>s.strip()\<close> and \<open>s.strip(chars)\<close>.\<close>

definition strip_where :: "(nat \<Rightarrow> bool) \<Rightarrow> ustring \<Rightarrow> ustring" where
  "strip_where P s = rev (dropWhile P (rev (dropWhile P s)))"

definition strip :: "ustring \<Rightarrow> ustring" where
  "strip s = strip_where is_space s"

definition strip_chars :: "ustring \<Rightarrow> ustring \<Rightarrow> ustring" where
  "strip_chars chars s = strip_where (\<lambda>c. c \<in> set chars) s"

text \<open>
  \<open>s.split(sep)\<close> for a non-empty separator: the pieces between the occurrences of
  \<open>sep\<close> found from left to right, without overlap. The second argument is the piece
  being read.
\<close>

fun split_sep :: "ustring \<Rightarrow> ustring \<Rightarrow> ustring \<Rightarrow> ustring list" where
  "split_sep sep cur [] = [cur]"
| "split_sep sep cur (c # cs) =
     (if sep \<noteq> [] \<and> prefix sep (c # cs)
      then cur # split_sep sep [] (drop (length sep - 1) cs)
      else split_sep sep (cur @ [c]) cs)"

subsection \<open>The self-reference pattern\<close>

text \<open>
  \<open>re.search(r'\b(i\'m|i am|me|my)\b', text)\<close>. A word character is a letter, a
  digit or the underscore, in ASCII or not. \<open>\b\<close> holds at a position when exactly one
  of the code points before and after it is a word character; the search succeeds
  when some alternative stands between two such positions.
\<close>

definition is_word_char :: "unicode \<Rightarrow> nat \<Rightarrow> bool" where
  "is_word_char U c =
     (if c < 128
      then (cp CHR ''0'' \<le> c \<and> c \<le> cp CHR ''9'') \<or> (cp CHR ''A'' \<le> c \<and> c \<le> cp CHR ''Z'')
           \<or> c = cp CHR ''_'' \<or> (cp CHR ''a'' \<le> c \<and> c \<le> cp CHR ''z'')
      else uni_word U c)"

definition word_before :: "unicode \<Rightarrow> ustring \<Rightarrow> nat \<Rightarrow> bool" where
  "word_before U text i = (0 < i \<and> i \<le> length text \<and> is_word_char U (text ! (i - 1)))"

definition word_after :: "unicode \<Rightarrow> ustring \<Rightarrow> nat \<Rightarrow> bool" where
  "word_after U text i = (i < length text \<and> is_word_char U (text ! i))"

definition boundary :: "unicode \<Rightarrow> ustring \<Rightarrow> nat \<Rightarrow> bool" where
  "boundary U text i = (word_before U text i \<noteq> word_after U text i)"

definition match_at :: "unicode \<Rightarrow> ustring \<Rightarrow> nat \<Rightarrow> ustring \<Rightarrow> bool" where
  "match_at U text i w =
     (boundary U text i \<and> prefix w (drop i text) \<and> boundary U text (i + length w))"

definition self_reference :: "unicode \<Rightarrow> ustring \<Rightarrow> bool" where
  "self_reference U text =
     list_ex (\<lambda>i. list_ex (match_at U text i)
                    [u (''i'' @ [CHR 0x27] @ ''m''), u ''i am'', u ''me'', u ''my''])
       [0..<Suc (length text)]"

subsection \<open>defaultdict\<close>

text \<open>
  A dictionary is an association list in insertion order with distinct keys.
  \<open>dd_get d m k\<close> reads \<open>m[k]\<close> of a defaultdict whose default is \<open>d\<close>;
  \<open>dd_upd k f d m\<close> is \<open>m[k] = f(m[k])\<close>: an existing key keeps its place, a new key
  is added at the end.
\<close>

definition dd_get :: "'v \<Rightarrow> ('k \<times> 'v) list \<Rightarrow> 'k \<Rightarrow> 'v" where
  "dd_get d m k = (case map_of m k of None \<Rightarrow> d | Some v \<Rightarrow> v)"

fun dd_upd :: "'k \<Rightarrow> ('v \<Rightarrow> 'v) \<Rightarrow> 'v \<Rightarrow> ('k \<times> 'v) list \<Rightarrow> ('k \<times> 'v) list" where
  "dd_upd k f d [] = [(k, f d)]"
| "dd_upd k f d ((k', v) # m) =
     (if k' = k then (k', f v) # m else (k', v) # dd_upd k f d m)"

definition dd_append :: "ustring \<Rightarrow> ustring \<Rightarrow> (ustring \<times> ustring list) list \<Rightarrow> (ustring \<times> ustring list) list" where
  "dd_append k url m = dd_upd k (\<lambda>l. l @ [url]) [] m"

definition dd_add :: "ustring \<Rightarrow> nat \<Rightarrow> (ustring \<times> nat) list \<Rightarrow> (ustring \<times> nat) list" where
  "dd_add k n m = dd_upd k (\<lambda>v. v + n) 0 m"

section \<open>Data model\<close>

datatype pyval = Str ustring | IntV int | BoolV bool

record comment =
  comment_body :: ustring
  comment_subreddit :: ustring
  comment_created_utc :: ustring
  comment_score :: int
  comment_permalink :: ustring

record post =
  post_title :: ustring
  post_selftext :: ustring
  post_subreddit :: ustring
  post_created_utc :: ustring
  post_score :: int
  post_permalink :: ustring
  post_is_self :: bool
  post_url :: ustring

record user_info =
  username :: ustring
  created_utc :: ustring
  comment_karma :: int
  link_karma :: int
  is_mod :: bool
  is_gold :: bool
  comments :: "comment list"
  posts :: "post list"

record persona =
  basic_info :: "(ustring \<times> pyval) list"
  interests :: "(ustring \<times> ustring list) list"
  personality_traits :: "(ustring \<times> ustring list) list"
  frequent_subreddits :: "(ustring \<times> nat) list"
  activity_patterns :: "(ustring \<times> nat) list"
  language_style :: "(ustring \<times> nat) list"
  top_interests :: "(ustring \<times> ustring list) list"
  top_subreddits :: "(ustring \<times> nat) list"

section \<open>Classifier\<close>

text \<open>
  One rule of the classifier: \<open>if hit: persona['interests'][cat].append(link)\<close>, and
  the same for \<open>persona['personality_traits']\<close>.
\<close>

definition tag_interest :: "bool \<Rightarrow> ustring \<Rightarrow> ustring \<Rightarrow> persona \<Rightarrow> persona" where
  "tag_interest hit cat link p =
     (if hit then p\<lparr>interests := dd_append cat link (interests p)\<rparr> else p)"

definition tag_trait :: "bool \<Rightarrow> ustring \<Rightarrow> ustring \<Rightarrow> persona \<Rightarrow> persona" where
  "tag_trait hit cat link p =
     (if hit then p\<lparr>personality_traits := dd_append cat link (personality_traits p)\<rparr> else p)"

text \<open>
  \<open>persona['language_style'][key] += n\<close>, and the two guarded counters.
\<close>

definition style_add :: "ustring \<Rightarrow> nat \<Rightarrow> persona \<Rightarrow> persona" where
  "style_add key n p = p\<lparr>language_style := dd_add key n (language_style p)\<rparr>"

definition style_count :: "bool \<Rightarrow> ustring \<Rightarrow> persona \<Rightarrow> persona" where
  "style_count hit key p = (if hit then style_add key 1 p else p)"

definition analyze_comment :: "unicode \<Rightarrow> comment \<Rightarrow> persona \<Rightarrow> persona" where
  "analyze_comment U c p =
     (let text = lower U (comment_body c); link = comment_permalink c in
      (style_count (self_reference U text) (u ''self_reference'')
       \<circ> style_count (str_in (u ''!'') text) (u ''exclamation_use'')
       \<circ> style_add (u ''comment_length'') (length (split text))
       \<circ> tag_trait (any_in [(u ''thanks''), (u ''thank you''), (u ''appreciate'')] text) (u ''polite'') link
       \<circ> tag_trait (str_in (u ''?'') text) (u ''inquisitive'') link
       \<circ> tag_trait (any_in [(u ''i think''), (u ''in my opinion'')] text) (u ''opinionated'') link
       \<circ> tag_interest (any_in [(u ''movie''), (u ''film''), (u ''netflix''), (u ''hbo'')] text) (u ''movies'') link
       \<circ> tag_interest (any_in [(u ''game''), (u ''gaming''), (u ''playstation''), (u ''xbox'')] text) (u ''gaming'') link
       \<circ> tag_interest (any_in [(u ''python''), (u ''javascript''), (u ''java''), (u ''c++'')] text) (u ''programming'') link)
        p)"

definition analyze_post :: "unicode \<Rightarrow> post \<Rightarrow> persona \<Rightarrow> persona" where
  "analyze_post U q p =
     (let text = lower U (post_title q @ (u '' '') @ post_selftext q); link = post_permalink q in
      (tag_trait (str_in (u ''?'') (post_title q)) (u ''inquisitive'') link
       \<circ> tag_interest (any_in [(u ''discussion''), (u ''debate''), (u ''opinion'')] text) (u ''discussions'') link
       \<circ> tag_interest (any_in [(u ''help''), (u ''advice''), (u ''suggestion'')] text) (u ''help_seeking'') link)
        p)"

section \<open>Dates\<close>

record datetime =
  year :: int
  month :: int
  day :: int
  hour :: int
  minute :: int
  second :: int

text \<open>
  A decimal digit and its value, as \<open>\d\<close> of a pattern and \<open>int\<close> of the matched
  text see them; \<open>decimal U 0 s\<close> is \<open>int(s)\<close> for a text of digits.
\<close>

definition digit_val :: "unicode \<Rightarrow> nat \<Rightarrow> nat option" where
  "digit_val U c =
     (if c < 128
      then (if cp CHR ''0'' \<le> c \<and> c \<le> cp CHR ''9'' then Some (c - cp CHR ''0'') else None)
      else uni_digit U c)"

fun decimal :: "unicode \<Rightarrow> nat \<Rightarrow> ustring \<Rightarrow> nat option" where
  "decimal U a [] = Some a"
| "decimal U a (c # cs) =
     (case digit_val U c of None \<Rightarrow> None | Some v \<Rightarrow> decimal U (10 * a + v) cs)"

definition digit19 :: "nat \<Rightarrow> bool" where
  "digit19 c = (cp CHR ''1'' \<le> c \<and> c \<le> cp CHR ''9'')"

definition is_leap :: "int \<Rightarrow> bool" where
  "is_leap y = (y mod 4 = 0 \<and> (y mod 100 \<noteq> 0 \<or> y mod 400 = 0))"

definition days_in_month :: "int \<Rightarrow> int \<Rightarrow> int" where
  "days_in_month y m =
     (if m = 2 then (if is_leap y then 29 else 28)
      else if m \<in> set [4, 6, 9, 11] then 30 else 31)"

text \<open>
  The fields of the format \<open>'%Y-%m-%d'\<close> as \<open>datetime.strptime\<close> reads them, each
  with its value: a year \<open>\d\d\d\d\<close>; a month \<open>1[0-2]|0[1-9]|[1-9]\<close>; a day
  \<open>3[01]|[12]\d|0[1-9]|[1-9]| [1-9]\<close>.
\<close>

definition year_field :: "unicode \<Rightarrow> ustring \<Rightarrow> nat option" where
  "year_field U s = (if length s = 4 then decimal U 0 s else None)"

fun month_field :: "ustring \<Rightarrow> nat option" where
  "month_field [a] = (if digit19 a then Some (a - cp CHR ''0'') else None)"
| "month_field [a, b] =
     (if a = cp CHR ''1'' \<and> cp CHR ''0'' \<le> b \<and> b \<le> cp CHR ''2''
      then Some (10 + (b - cp CHR ''0''))
      else if a = cp CHR ''0'' \<and> digit19 b then Some (b - cp CHR ''0'')
      else None)"
| "month_field s = None"

fun day_field :: "unicode \<Rightarrow> ustring \<Rightarrow> nat option" where
  "day_field U [a] = (if digit19 a then Some (a - cp CHR ''0'') else None)"
| "day_field U [a, b] =
     (if a = cp CHR ''3'' \<and> (b = cp CHR ''0'' \<or> b = cp CHR ''1'')
      then Some (30 + (b - cp CHR ''0''))
      else if a = cp CHR ''1'' \<or> a = cp CHR ''2''
      then (case digit_val U b of
              None \<Rightarrow> None
            | Some v \<Rightarrow> Some (10 * (a - cp CHR ''0'') + v))
      else if (a = cp CHR ''0'' \<or> a = cp CHR '' '') \<and> digit19 b then Some (b - cp CHR ''0'')
      else None)"
| "day_field U s = None"

text \<open>
  \<open>datetime.datetime.strptime(s, '%Y-%m-%d')\<close>: \<open>None\<close> stands for the ValueError
  raised when the text does not match the format, when text is left over, or when
  the date does not exist. The format has no time directive, so the time of day of
  the result is midnight.
\<close>

definition strptime :: "unicode \<Rightarrow> ustring \<Rightarrow> datetime option" where
  "strptime U s =
     (let r1 = drop 5 s;
          ms = takeWhile (\<lambda>c. c \<noteq> cp CHR ''-'') r1;
          r2 = dropWhile (\<lambda>c. c \<noteq> cp CHR ''-'') r1
      in if take 1 (drop 4 s) = u ''-'' \<and> take 1 r2 = u ''-''
         then (case year_field U (take 4 s) of
                 None \<Rightarrow> None
               | Some y \<Rightarrow>
                   (case month_field ms of
                      None \<Rightarrow> None
                    | Some m \<Rightarrow>
                        (case day_field U (drop 1 r2) of
                           None \<Rightarrow> None
                         | Some d \<Rightarrow>
                             if 1 \<le> y \<and> int d \<le> days_in_month (int y) (int m)
                             then Some \<lparr>year = int y, month = int m, day = int d,
                                        hour = 0, minute = 0, second = 0\<rparr>
                             else None)))
         else None)"

section \<open>Activity-time bucketer\<close>

text \<open>The \<open>if\<close>/\<open>elif\<close> chain of \<open>_analyze_activity_time\<close> on the hour of day.\<close>

definition time_bucket :: "int \<Rightarrow> ustring" where
  "time_bucket h =
     (if 5 \<le> h \<and> h < 12 then (u ''morning'')
      else if 12 \<le> h \<and> h < 17 then (u ''afternoon'')
      else if 17 \<le> h \<and> h < 22 then (u ''evening'')
      else (u ''night''))"

definition count_activity :: "int \<Rightarrow> persona \<Rightarrow> persona" where
  "count_activity h p = p\<lparr>activity_patterns := dd_add (time_bucket h) 1 (activity_patterns p)\<rparr>"

definition analyze_activity_time :: "unicode \<Rightarrow> ustring \<Rightarrow> persona \<Rightarrow> py_error + persona" where
  "analyze_activity_time U timestamp p =
     (case strptime U timestamp of
        None \<Rightarrow> Inl ValueError
      | Some dt \<Rightarrow> Inr (count_activity (hour dt) p))"

section \<open>Account age\<close>

definition days_before_year :: "int \<Rightarrow> int" where
  "days_before_year y = (y - 1) * 365 + (y - 1) div 4 - (y - 1) div 100 + (y - 1) div 400"

definition days_before_month :: "int \<Rightarrow> int \<Rightarrow> int" where
  "days_before_month y m = sum_list (map (days_in_month y) [1..m - 1])"

definition toordinal :: "datetime \<Rightarrow> int" where
  "toordinal dt = days_before_year (year dt) + days_before_month (year dt) (month dt) + day dt"

definition digit_char :: "nat \<Rightarrow> nat" where
  "digit_char n = cp CHR ''0'' + n mod 10"

fun str_nat :: "nat \<Rightarrow> ustring" where
  "str_nat n = (if n < 10 then [digit_char n] else str_nat (n div 10) @ [digit_char n])"

declare str_nat.simps [simp del]

definition str_int :: "int \<Rightarrow> ustring" where
  "str_int i = (if i < 0 then (u ''-'') @ str_nat (nat (- i)) else str_nat (nat i))"

text \<open>
  \<open>_calculate_account_age\<close>. The first argument is the value of
  \<open>datetime.datetime.now()\<close>. The created date is parsed at midnight, so the whole
  days of \<open>now - created\<close> are the difference of the two day numbers.
\<close>

definition calculate_account_age :: "unicode \<Rightarrow> datetime \<Rightarrow> ustring \<Rightarrow> py_error + ustring" where
  "calculate_account_age U now created_date =
     (case strptime U created_date of
        None \<Rightarrow> Inl ValueError
      | Some created \<Rightarrow>
          (let days = toordinal now - toordinal created;
               years = days div 365;
               months = (days mod 365) div 30
           in Inr (str_int years @ (u '' years, '') @ str_int months @ (u '' months''))))"

section \<open>Aggregator and ranker\<close>

text \<open>The body of the loop over the comments, and of the loop over the posts.\<close>

definition comment_step :: "unicode \<Rightarrow> comment \<Rightarrow> persona \<Rightarrow> py_error + persona" where
  "comment_step U c p =
     (let p1 = analyze_comment U c p;
          p2 = p1\<lparr>frequent_subreddits := dd_add (comment_subreddit c) 1 (frequent_subreddits p1)\<rparr>
      in analyze_activity_time U (comment_created_utc c) p2)"

definition post_step :: "unicode \<Rightarrow> post \<Rightarrow> persona \<Rightarrow> py_error + persona" where
  "post_step U q p =
     (let p1 = analyze_post U q p;
          p2 = p1\<lparr>frequent_subreddits := dd_add (post_subreddit q) 1 (frequent_subreddits p1)\<rparr>
      in analyze_activity_time U (post_created_utc q) p2)"

fun analyze_comments :: "unicode \<Rightarrow> comment list \<Rightarrow> persona \<Rightarrow> py_error + persona" where
  "analyze_comments U [] p = Inr p"
| "analyze_comments U (c # cs) p =
     (case comment_step U c p of Inl e \<Rightarrow> Inl e | Inr p' \<Rightarrow> analyze_comments U cs p')"

fun analyze_posts :: "unicode \<Rightarrow> post list \<Rightarrow> persona \<Rightarrow> py_error + persona" where
  "analyze_posts U [] p = Inr p"
| "analyze_posts U (q # qs) p =
     (case post_step U q p of Inl e \<Rightarrow> Inl e | Inr p' \<Rightarrow> analyze_posts U qs p')"

text \<open>
  \<open>sorted(items, key=key, reverse=True)\<close>: the list is reversed, sorted stably in
  ascending order of the key, and reversed again. \<open>top5\<close> adds the slice \<open>[:5]\<close>.
\<close>

definition sorted_reverse :: "('a \<Rightarrow> nat) \<Rightarrow> 'a list \<Rightarrow> 'a list" where
  "sorted_reverse key xs = rev (sort_key key (rev xs))"

definition top5 :: "('a \<Rightarrow> nat) \<Rightarrow> 'a list \<Rightarrow> 'a list" where
  "top5 key xs = take 5 (sorted_reverse key xs)"

definition new_persona :: "user_info \<Rightarrow> ustring \<Rightarrow> persona" where
  "new_persona ui age =
     \<lparr>basic_info =
        [((u ''Username''), Str (username ui)),
         ((u ''Account Age''), Str age),
         ((u ''Comment Karma''), IntV (comment_karma ui)),
         ((u ''Post Karma''), IntV (link_karma ui)),
         ((u ''Premium Member''), BoolV (is_gold ui))],
      interests = [], personality_traits = [], frequent_subreddits = [],
      activity_patterns = [], language_style = [],
      top_interests = [], top_subreddits = []\<rparr>"

definition rank :: "persona \<Rightarrow> persona" where
  "rank p =
     p\<lparr>top_interests := top5 (\<lambda>x. length (snd x)) (interests p),
       top_subreddits := top5 snd (frequent_subreddits p)\<rparr>"

definition analyze_persona :: "unicode \<Rightarrow> datetime \<Rightarrow> user_info \<Rightarrow> py_error + persona" where
  "analyze_persona U now ui =
     (case calculate_account_age U now (created_utc ui) of
        Inl e \<Rightarrow> Inl e
      | Inr age \<Rightarrow>
          (case analyze_comments U (comments ui) (new_persona ui age) of
             Inl e \<Rightarrow> Inl e
           | Inr p1 \<Rightarrow>
               (case analyze_posts U (posts ui) p1 of
                  Inl e \<Rightarrow> Inl e
                | Inr p2 \<Rightarrow> Inr (rank p2))))"

section \<open>Floating point in the report\<close>

text \<open>
  A finite Python float is modelled by the rational number it stands for.
  \<open>float_round q\<close> is the double nearest to \<open>q \<ge> 0\<close> (ties to the even mantissa,
  53 bits, gradual underflow), or \<open>None\<close> when that value is beyond the largest double.
\<close>

definition pow2 :: "int \<Rightarrow> rat" where
  "pow2 e = (if 0 \<le> e then 2 ^ nat e else 1 / 2 ^ nat (- e))"

definition round_half_even :: "rat \<Rightarrow> int" where
  "round_half_even q =
     (let f = \<lfloor>q\<rfloor>; r = q - of_int f
      in if r < 1 / 2 then f else if 1 / 2 < r then f + 1 else if even f then f else f + 1)"

definition ilog2 :: "rat \<Rightarrow> int" where
  "ilog2 q =
     (let (a, b) = quotient_of q;
          d = int (floorlog 2 (nat a)) - int (floorlog 2 (nat b))
      in if pow2 d \<le> q then d else d - 1)"

definition float_round :: "rat \<Rightarrow> rat option" where
  "float_round q =
     (if q = 0 then Some 0
      else let ulp = pow2 (max (ilog2 q) (- 1022) - 52);
               x = of_int (round_half_even (q / ulp)) * ulp
           in if pow2 1024 \<le> x then None else Some x)"

datatype pyfloat = Fin rat | Inf

text \<open>\<open>a / b\<close> on two non-negative integers, and \<open>x * k\<close> on a float and an integer.\<close>

definition truediv :: "nat \<Rightarrow> nat \<Rightarrow> py_error + pyfloat" where
  "truediv a b =
     (if b = 0 then Inl ZeroDivisionError
      else case float_round (of_nat a / of_nat b) of
             None \<Rightarrow> Inl OverflowError
           | Some x \<Rightarrow> Inr (Fin x))"

definition float_mul :: "pyfloat \<Rightarrow> nat \<Rightarrow> pyfloat" where
  "float_mul x k =
     (case x of
        Inf \<Rightarrow> Inf
      | Fin q \<Rightarrow> (case float_round (q * of_nat k) of None \<Rightarrow> Inf | Some y \<Rightarrow> Fin y))"

text \<open>\<open>f"{x:.1f}"\<close> for a non-negative float.\<close>

definition fmt_1f :: "pyfloat \<Rightarrow> ustring" where
  "fmt_1f x =
     (case x of
        Inf \<Rightarrow> (u ''inf'')
      | Fin q \<Rightarrow>
          (let n = nat (round_half_even (q * 10))
           in str_nat (n div 10) @ (u ''.'') @ str_nat (n mod 10)))"

section \<open>Report renderer\<close>

abbreviation NL :: ustring where
  "NL \<equiv> [0x0A]"

definition py_str :: "pyval \<Rightarrow> ustring" where
  "py_str v =
     (case v of
        Str s \<Rightarrow> s
      | IntV i \<Rightarrow> str_int i
      | BoolV b \<Rightarrow> (if b then (u ''True'') else (u ''False'')))"

definition write_basic_info :: "persona \<Rightarrow> ustring" where
  "write_basic_info p =
     (u ''== BASIC INFORMATION =='') @ NL
     @ concat (map (\<lambda>(key, v). key @ (u '': '') @ py_str v @ NL) (basic_info p))
     @ NL"

definition citation_lines :: "ustring list \<Rightarrow> ustring" where
  "citation_lines urls = concat (map (\<lambda>url. (u ''  - Citation: '') @ url @ NL) urls)"

definition category_lines :: "unicode \<Rightarrow> nat \<Rightarrow> (ustring \<times> ustring list) list \<Rightarrow> ustring" where
  "category_lines U k cats =
     concat (map (\<lambda>(name, citations).
                    (u ''- '') @ capitalize U name @ (u '' (based on '') @ str_nat (length citations)
                    @ (u '' comments/posts)'') @ NL @ citation_lines (take k citations)) cats)"

definition write_top_interests :: "unicode \<Rightarrow> persona \<Rightarrow> ustring" where
  "write_top_interests U p = (u ''== TOP INTERESTS =='') @ NL @ category_lines U 3 (top_interests p) @ NL"

definition write_personality_traits :: "unicode \<Rightarrow> persona \<Rightarrow> ustring" where
  "write_personality_traits U p =
     (u ''== PERSONALITY TRAITS =='') @ NL @ category_lines U 2 (personality_traits p) @ NL"

text \<open>
  The writers of the two sections that divide return the text written so far and
  the exception that stopped them, if any.
\<close>

definition percentage :: "nat \<Rightarrow> nat \<Rightarrow> py_error + pyfloat" where
  "percentage cnt total_activity =
     (case truediv cnt total_activity of
        Inl e \<Rightarrow> Inl e
      | Inr x \<Rightarrow> Inr (float_mul x 100))"

fun activity_lines :: "nat \<Rightarrow> (ustring \<times> nat) list \<Rightarrow> ustring \<times> py_error option" where
  "activity_lines total_activity [] = ([], None)"
| "activity_lines total_activity ((time, cnt) # rest) =
     (case percentage cnt total_activity of
        Inl e \<Rightarrow> ([], Some e)
      | Inr pct \<Rightarrow>
          (let (out, err) = activity_lines total_activity rest
           in ((u ''- Most active during '') @ time @ (u '': '') @ fmt_1f pct @ (u ''% of activity'') @ NL @ out,
               err)))"

definition write_activity_patterns :: "persona \<Rightarrow> ustring \<times> py_error option" where
  "write_activity_patterns p =
     (let total_activity = sum_list (map snd (activity_patterns p));
          (out, err) = activity_lines total_activity (activity_patterns p)
      in ((u ''== ACTIVITY PATTERNS =='') @ NL @ out @ (if err = None then NL else []), err))"

definition style_flags :: "persona \<Rightarrow> ustring" where
  "style_flags p =
     (if 0 < dd_get 0 (language_style p) (u ''exclamation_use'')
      then (u ''- Frequently uses exclamation marks'') @ NL else [])
     @ (if 0 < dd_get 0 (language_style p) (u ''self_reference'')
        then (u ''- Often uses self-referential language (I, me, my)'') @ NL else [])
     @ NL"

definition write_language_style :: "persona \<Rightarrow> ustring \<times> py_error option" where
  "write_language_style p =
     (if 0 < dd_get 0 (language_style p) (u ''comment_length'')
      then (case truediv (dd_get 0 (language_style p) (u ''comment_length''))
                   (length (personality_traits p) + length (interests p)) of
              Inl e \<Rightarrow> ((u ''== LANGUAGE STYLE =='') @ NL, Some e)
            | Inr avg_length \<Rightarrow>
                ((u ''== LANGUAGE STYLE =='') @ NL
                 @ (u ''- Average comment length: '') @ fmt_1f avg_length @ (u '' words'') @ NL
                 @ style_flags p, None))
      else ((u ''== LANGUAGE STYLE =='') @ NL @ style_flags p, None))"

definition write_subreddits :: "persona \<Rightarrow> ustring" where
  "write_subreddits p =
     (u ''== FREQUENTLY VISITED SUBREDDITS =='') @ NL
     @ concat (map (\<lambda>(subreddit, cnt).
                      (u ''- r/'') @ subreddit @ (u '': '') @ str_nat cnt @ (u '' interactions'') @ NL)
                 (top_subreddits p))
     @ NL @ (u ''=== END OF PERSONA ==='')"

text \<open>
  \<open>generate_persona_file\<close>: the text the file holds when the function returns or
  raises, and the exception raised, if any. Opening and writing the file are taken
  to succeed.
\<close>

definition generate_persona_file :: "unicode \<Rightarrow> persona \<Rightarrow> ustring \<times> py_error option" where
  "generate_persona_file U p =
     (let head = (u ''=== REDDIT USER PERSONA ==='') @ NL @ NL @ write_basic_info p
                 @ write_top_interests U p @ write_personality_traits U p;
          (act, err1) = write_activity_patterns p
      in case err1 of
           Some e \<Rightarrow> (head @ act, Some e)
         | None \<Rightarrow>
             (let (sty, err2) = write_language_style p
              in case err2 of
                   Some e \<Rightarrow> (head @ act @ sty, Some e)
                 | None \<Rightarrow> (head @ act @ sty @ write_subreddits p, None)))"

section \<open>Fetcher and main\<close>

text \<open>
  What the Reddit client returns for an account. The creation times are the values
  of \<open>datetime.datetime.fromtimestamp\<close> on the timestamps of the platform.
\<close>

record api_comment =
  api_body :: ustring
  api_subreddit :: ustring
  api_created :: datetime
  api_score :: int
  api_permalink :: ustring

record api_submission =
  sub_title :: ustring
  sub_selftext :: ustring
  sub_subreddit :: ustring
  sub_created :: datetime
  sub_score :: int
  sub_permalink :: ustring
  sub_is_self :: bool
  sub_url :: ustring

record redditor =
  red_created :: datetime
  red_comment_karma :: int
  red_link_karma :: int
  red_is_mod :: bool
  red_is_gold :: bool
  red_comments :: "api_comment list"
  red_submissions :: "api_submission list"

text \<open>
  \<open>dt.strftime('%Y-%m-%d')\<close> for a year of four digits: the time of day is dropped.
\<close>

definition two_digits :: "nat \<Rightarrow> ustring" where
  "two_digits n = [digit_char (n div 10), digit_char n]"

definition four_digits :: "nat \<Rightarrow> ustring" where
  "four_digits n =
     [digit_char (n div 1000), digit_char (n div 100), digit_char (n div 10), digit_char n]"

definition strftime :: "datetime \<Rightarrow> ustring" where
  "strftime dt =
     four_digits (nat (year dt)) @ (u ''-'') @ two_digits (nat (month dt)) @ (u ''-'')
     @ two_digits (nat (day dt))"

text \<open>
  The dates that \<open>fromtimestamp\<close> can give for a timestamp of the platform: a day
  that exists, in a year of four digits.
\<close>

definition valid_date :: "datetime \<Rightarrow> bool" where
  "valid_date dt =
     (1000 \<le> year dt \<and> year dt \<le> 9999 \<and> 1 \<le> month dt \<and> month dt \<le> 12
      \<and> 1 \<le> day dt \<and> day dt \<le> days_in_month (year dt) (month dt))"

definition comment_of :: "api_comment \<Rightarrow> comment" where
  "comment_of c =
     \<lparr>comment_body = api_body c,
      comment_subreddit = api_subreddit c,
      comment_created_utc = strftime (api_created c),
      comment_score = api_score c,
      comment_permalink = (u ''https://reddit.com'') @ api_permalink c\<rparr>"

definition post_of :: "api_submission \<Rightarrow> post" where
  "post_of s =
     \<lparr>post_title = sub_title s,
      post_selftext = sub_selftext s,
      post_subreddit = sub_subreddit s,
      post_created_utc = strftime (sub_created s),
      post_score = sub_score s,
      post_permalink = (u ''https://reddit.com'') @ sub_permalink s,
      post_is_self = sub_is_self s,
      post_url = sub_url s\<rparr>"

text \<open>
  What the operator and the outside world see of a run: lines printed, the prompt,
  the request to the platform, and the report file with the text it holds.
\<close>

datatype event =
    Print ustring
  | Prompt ustring
  | Fetch ustring
  | WriteFile ustring ustring

text \<open>
  \<open>extract_user_info\<close>. The client is a function from the user name to either the
  text of the exception raised while the account was read, or the account.
\<close>

definition extract_user_info ::
  "(ustring \<Rightarrow> ustring + redditor) \<Rightarrow> ustring \<Rightarrow> event list \<times> user_info option" where
  "extract_user_info api name =
     (case api name of
        Inl msg \<Rightarrow> ([Fetch name, Print ((u ''Error fetching user data: '') @ msg)], None)
      | Inr r \<Rightarrow>
          ([Fetch name],
           Some \<lparr>username = name,
                 created_utc = strftime (red_created r),
                 comment_karma = red_comment_karma r,
                 link_karma = red_link_karma r,
                 is_mod = red_is_mod r,
                 is_gold = red_is_gold r,
                 comments = map comment_of (take 100 (red_comments r)),
                 posts = map post_of (take 50 (red_submissions r))\<rparr>))"

definition parse_username :: "ustring \<Rightarrow> ustring" where
  "parse_username line = strip_chars (u ''/'') (last (split_sep (u ''/user/'') [] (strip line)))"

definition banner :: "event list" where
  "banner =
     [Print (u ''Reddit User Persona Generator''),
      Print ((u ''-----------------------------'') @ NL),
      Prompt (u ''Enter Reddit profile URL (e.g., https://www.reddit.com/user/username/): '')]"

text \<open>
  \<open>main\<close>, given the client, the clock and the line the operator types: the events
  of the run in order, and the exception that ended it, if any.
\<close>

definition main :: "unicode \<Rightarrow> (ustring \<Rightarrow> ustring + redditor) \<Rightarrow> datetime \<Rightarrow> ustring \<Rightarrow> event list \<times> py_error option" where
  "main U api now line =
     (let name = parse_username line in
      if name = [] then
        (banner @ [Print (u ''Invalid Reddit profile URL. Please include the username.'')], None)
      else
        (let (fetched, r) = extract_user_info api name;
             ev1 = banner @ [Print (NL @ (u ''Fetching data for user: '') @ name @ (u ''...''))] @ fetched
         in case r of
              None \<Rightarrow>
                (ev1 @ [Print (u ''Failed to fetch user data. Please check the username and try again.'')],
                 None)
            | Some ui \<Rightarrow>
                (let ev2 = ev1 @ [Print (u ''Analyzing user data and generating persona...'')]
                 in case analyze_persona U now ui of
                      Inl e \<Rightarrow> (ev2, Some e)
                    | Inr p \<Rightarrow>
                        (let filename = (u ''reddit_persona_'') @ name @ (u ''.txt'');
                             (text, err) = generate_persona_file U p;
                             ev3 = ev2 @ [WriteFile filename text]
                         in case err of
                              Some e \<Rightarrow> (ev3, Some e)
                            | None \<Rightarrow>
                                (ev3 @
                                 [Print (NL @ (u ''Persona generated successfully! Saved to: '') @ filename),
                                  Print (NL @ (u ''Note: Due to API limitations, this analysis is based on the user'') @ [cp (CHR 0x27)] @ (u ''s most recent 100 comments and 50 posts.''))],
                                 None)))))"

section \<open>Sample inputs\<close>

text \<open>
  Tables for the examples: those of the interpreter on the code points 128 to 255
  (the Latin-1 supplement); beyond them no code point is a letter or a digit and none
  changes case.
\<close>

definition ex_unicode :: unicode where
  "ex_unicode =
     \<lparr>uni_lower =
        (\<lambda>s i. let c = s ! i
               in if 0xC0 \<le> c \<and> c \<le> 0xDE \<and> c \<noteq> 0xD7 then [c + 32] else [c]),
      uni_title =
        (\<lambda>c. if 0xE0 \<le> c \<and> c \<le> 0xFE \<and> c \<noteq> 0xF7 then [c - 32]
             else if c = 0xB5 then [0x39C]
             else if c = 0xDF then [0x53, 0x73]
             else if c = 0xFF then [0x178]
             else [c]),
      uni_word =
        (\<lambda>c. c \<in> set [0xAA, 0xB2, 0xB3, 0xB5, 0xB9, 0xBA, 0xBC, 0xBD, 0xBE]
             \<or> (0xC0 \<le> c \<and> c \<le> 0xFF \<and> c \<noteq> 0xD7 \<and> c \<noteq> 0xF7)),
      uni_digit = (\<lambda>c. None)\<rparr>"

definition ex_now :: datetime where
  "ex_now = \<lparr>year = 2026, month = 11, day = 4, hour = 10, minute = 30, second = 0\<rparr>"

definition ex_comment :: comment where
  "ex_comment =
     \<lparr>comment_body = (u ''I think Python is great! Thanks for the help''),
      comment_subreddit = (u ''learnpython''),
      comment_created_utc = (u ''2024-03-05''),
      comment_score = 3,
      comment_permalink = (u ''https://reddit.com/r/learnpython/c1'')\<rparr>"

definition ex_plain :: comment where
  "ex_plain =
     \<lparr>comment_body = (u ''hello world''),
      comment_subreddit = (u ''pics''),
      comment_created_utc = (u ''2024-03-06''),
      comment_score = 1,
      comment_permalink = (u ''https://reddit.com/r/pics/c2'')\<rparr>"

definition ex_post :: post where
  "ex_post =
     \<lparr>post_title = (u ''Need advice: what laptop should I buy?''),
      post_selftext = (u ''Wow, my budget is low!''),
      post_subreddit = (u ''laptops''),
      post_created_utc = (u ''2024-03-07''),
      post_score = 1,
      post_permalink = (u ''https://reddit.com/r/laptops/p1''),
      post_is_self = True,
      post_url = (u ''https://reddit.com/r/laptops/p1'')\<rparr>"

definition ex_user :: user_info where
  "ex_user =
     \<lparr>username = (u ''bob''), created_utc = (u ''2020-02-29''), comment_karma = 10, link_karma = 2,
      is_mod = False, is_gold = False, comments = [], posts = []\<rparr>"

definition ex_start :: persona where
  "ex_start = new_persona ex_user (u ''6 years, 8 months'')"

text \<open>The persona after the loop body has run on \<open>ex_comment\<close>, and on \<open>ex_post\<close>.\<close>

definition ex_after_comment :: persona where
  "ex_after_comment =
     ex_start\<lparr>interests := [((u ''programming''), [(u ''https://reddit.com/r/learnpython/c1'')])],
       personality_traits := [((u ''opinionated''), [(u ''https://reddit.com/r/learnpython/c1'')]),
                              ((u ''polite''), [(u ''https://reddit.com/r/learnpython/c1'')])],
       frequent_subreddits := [((u ''learnpython''), 1)],
       activity_patterns := [((u ''night''), 1)],
       language_style := [((u ''comment_length''), 9), ((u ''exclamation_use''), 1)]\<rparr>"

definition ex_after_post :: persona where
  "ex_after_post =
     ex_start\<lparr>interests := [((u ''help_seeking''), [(u ''https://reddit.com/r/laptops/p1'')])],
       personality_traits := [((u ''inquisitive''), [(u ''https://reddit.com/r/laptops/p1'')])],
       frequent_subreddits := [((u ''laptops''), 1)],
       activity_patterns := [((u ''night''), 1)]\<rparr>"

definition ex_both :: user_info where
  "ex_both = ex_user\<lparr>comments := [ex_comment, ex_plain], posts := [ex_post]\<rparr>"

definition ex_both_persona :: persona where
  "ex_both_persona =
     ex_start\<lparr>interests := [((u ''programming''), [(u ''https://reddit.com/r/learnpython/c1'')]),
                             ((u ''help_seeking''), [(u ''https://reddit.com/r/laptops/p1'')])],
       personality_traits := [((u ''opinionated''), [(u ''https://reddit.com/r/learnpython/c1'')]),
                              ((u ''polite''), [(u ''https://reddit.com/r/learnpython/c1'')]),
                              ((u ''inquisitive''), [(u ''https://reddit.com/r/laptops/p1'')])],
       frequent_subreddits := [((u ''learnpython''), 1), ((u ''pics''), 1), ((u ''laptops''), 1)],
       activity_patterns := [((u ''night''), 3)],
       language_style := [((u ''comment_length''), 11), ((u ''exclamation_use''), 1)],
       top_interests := [((u ''programming''), [(u ''https://reddit.com/r/learnpython/c1'')]),
                         ((u ''help_seeking''), [(u ''https://reddit.com/r/laptops/p1'')])],
       top_subreddits := [((u ''learnpython''), 1), ((u ''pics''), 1), ((u ''laptops''), 1)]\<rparr>"

text \<open>
  An account with two comments: one that speaks of the author, and one with an
  accented letter, a no-break space and a next-line character.
\<close>

definition ex_self :: comment where
  "ex_self =
     \<lparr>comment_body = u ''Tell me, is my game ok?'',
      comment_subreddit = u ''gaming'',
      comment_created_utc = u ''2024-03-08'',
      comment_score = 2,
      comment_permalink = u ''https://reddit.com/r/gaming/c3''\<rparr>"

definition ex_accent :: comment where
  "ex_accent =
     \<lparr>comment_body = u ''m'' @ [0xEA] @ u ''me'' @ [0xA0] @ u ''b'' @ [0x85] @ u ''c!'',
      comment_subreddit = u ''france'',
      comment_created_utc = u ''2024-03-09'',
      comment_score = 1,
      comment_permalink = u ''https://reddit.com/r/france/c4''\<rparr>"

definition ex_latin :: user_info where
  "ex_latin = ex_user\<lparr>comments := [ex_self, ex_accent]\<rparr>"

definition ex_latin_persona :: persona where
  "ex_latin_persona =
     ex_start\<lparr>interests := [(u ''gaming'', [u ''https://reddit.com/r/gaming/c3''])],
       personality_traits := [(u ''inquisitive'', [u ''https://reddit.com/r/gaming/c3''])],
       frequent_subreddits := [(u ''gaming'', 1), (u ''france'', 1)],
       activity_patterns := [(u ''night'', 2)],
       language_style := [(u ''comment_length'', 9), (u ''self_reference'', 1),
                          (u ''exclamation_use'', 1)],
       top_interests := [(u ''gaming'', [u ''https://reddit.com/r/gaming/c3''])],
       top_subreddits := [(u ''gaming'', 1), (u ''france'', 1)]\<rparr>"

text \<open>An account with one post and no comment, and what the analysis makes of it.\<close>

definition ex_post_only :: user_info where
  "ex_post_only = ex_user\<lparr>posts := [ex_post]\<rparr>"

definition ex_post_persona :: persona where
  "ex_post_persona =
     ex_after_post\<lparr>top_interests := [((u ''help_seeking''), [(u ''https://reddit.com/r/laptops/p1'')])],
       top_subreddits := [((u ''laptops''), 1)]\<rparr>"

text \<open>An account whose only activity is a comment that no rule matches.\<close>

definition ex_plain_only :: user_info where
  "ex_plain_only = ex_user\<lparr>comments := [ex_plain]\<rparr>"

definition ex_plain_persona :: persona where
  "ex_plain_persona =
     ex_start\<lparr>frequent_subreddits := [((u ''pics''), 1)],
       activity_patterns := [((u ''night''), 1)],
       language_style := [((u ''comment_length''), 2)],
       top_subreddits := [((u ''pics''), 1)]\<rparr>"

text \<open>A client for which every account is missing.\<close>

definition ex_api_fail :: "ustring \<Rightarrow> ustring + redditor" where
  "ex_api_fail name = Inl (u ''received 404 HTTP response'')"

section \<open>The language-style totals in the words of the specification\<close>

text \<open>
  The specification takes the totals over the comments followed by the posts. These
  definitions follow its words; they are compared with the code below.
\<close>

definition item_texts :: "unicode \<Rightarrow> user_info \<Rightarrow> ustring list" where
  "item_texts U ui =
     map (\<lambda>c. lower U (comment_body c)) (comments ui)
     @ map (\<lambda>q. lower U (post_title q @ (u '' '') @ post_selftext q)) (posts ui)"

definition spec_word_total :: "unicode \<Rightarrow> user_info \<Rightarrow> nat" where
  "spec_word_total U ui = sum_list (map (\<lambda>t. length (split t)) (item_texts U ui))"

definition spec_exclamation_total :: "unicode \<Rightarrow> user_info \<Rightarrow> nat" where
  "spec_exclamation_total U ui = length (filter (str_in (u ''!'')) (item_texts U ui))"

definition spec_self_reference_total :: "unicode \<Rightarrow> user_info \<Rightarrow> nat" where
  "spec_self_reference_total U ui = length (filter (self_reference U) (item_texts U ui))"

section \<open>The activity mapping of a run\<close>

text \<open>The only shapes the mapping from time bucket to count takes: see below.\<close>

definition night_only :: "nat \<Rightarrow> (ustring \<times> nat) list" where
  "night_only n = (if n = 0 then [] else [((u ''night''), n)])"

section \<open>Properties of the dictionaries and of the classifier rules\<close>

lemma u_simps:
  "u [] = []"
  "u (c # cs) = cp c # u cs"
  by (simp_all add: u_def)

lemma u_eq_Nil [simp]: "u s = [] \<longleftrightarrow> s = []" "[] = u s \<longleftrightarrow> s = []"
  by (auto simp: u_def)

lemma u_inject [simp]: "u a = u b \<longleftrightarrow> a = b"
  unfolding u_def by (rule inj_map_eq_map) (rule inj_of_char)

lemma dd_get_upd:
  "dd_get d (dd_upd k f d m) k' = (if k' = k then f (dd_get d m k) else dd_get d m k')"
  by (induction m) (auto simp: dd_get_def)

lemma dd_get_append:
  "dd_get [] (dd_append k url m) k' = (if k' = k then dd_get [] m k @ [url] else dd_get [] m k')"
  by (simp add: dd_append_def dd_get_upd)

lemma dd_get_add:
  "dd_get 0 (dd_add k n m) k' = (if k' = k then dd_get 0 m k + n else dd_get 0 m k')"
  by (simp add: dd_add_def dd_get_upd)

lemma tag_interest_fields [simp]:
  "personality_traits (tag_interest h k l p) = personality_traits p"
  "frequent_subreddits (tag_interest h k l p) = frequent_subreddits p"
  "activity_patterns (tag_interest h k l p) = activity_patterns p"
  "language_style (tag_interest h k l p) = language_style p"
  "basic_info (tag_interest h k l p) = basic_info p"
  by (simp_all add: tag_interest_def)

lemma tag_trait_fields [simp]:
  "interests (tag_trait h k l p) = interests p"
  "frequent_subreddits (tag_trait h k l p) = frequent_subreddits p"
  "activity_patterns (tag_trait h k l p) = activity_patterns p"
  "language_style (tag_trait h k l p) = language_style p"
  "basic_info (tag_trait h k l p) = basic_info p"
  by (simp_all add: tag_trait_def)

lemma style_add_fields [simp]:
  "interests (style_add k n p) = interests p"
  "personality_traits (style_add k n p) = personality_traits p"
  "frequent_subreddits (style_add k n p) = frequent_subreddits p"
  "activity_patterns (style_add k n p) = activity_patterns p"
  "basic_info (style_add k n p) = basic_info p"
  by (simp_all add: style_add_def)

lemma style_count_fields [simp]:
  "interests (style_count h k p) = interests p"
  "personality_traits (style_count h k p) = personality_traits p"
  "frequent_subreddits (style_count h k p) = frequent_subreddits p"
  "activity_patterns (style_count h k p) = activity_patterns p"
  "basic_info (style_count h k p) = basic_info p"
  by (simp_all add: style_count_def)

lemma count_activity_fields [simp]:
  "interests (count_activity h p) = interests p"
  "personality_traits (count_activity h p) = personality_traits p"
  "frequent_subreddits (count_activity h p) = frequent_subreddits p"
  "language_style (count_activity h p) = language_style p"
  "basic_info (count_activity h p) = basic_info p"
  by (simp_all add: count_activity_def)

lemma get_tag_interest:
  "dd_get [] (interests (tag_interest h cat l p)) k
     = (if h \<and> k = cat then dd_get [] (interests p) k @ [l] else dd_get [] (interests p) k)"
  by (simp add: tag_interest_def dd_get_append)

lemma get_tag_trait:
  "dd_get [] (personality_traits (tag_trait h cat l p)) k
     = (if h \<and> k = cat then dd_get [] (personality_traits p) k @ [l]
        else dd_get [] (personality_traits p) k)"
  by (simp add: tag_trait_def dd_get_append)

lemma get_style_add:
  "dd_get 0 (language_style (style_add key n p)) k
     = (if k = key then dd_get 0 (language_style p) k + n else dd_get 0 (language_style p) k)"
  by (simp add: style_add_def dd_get_add)

lemma get_style_count:
  "dd_get 0 (language_style (style_count h key p)) k
     = (if h \<and> k = key then dd_get 0 (language_style p) k + 1 else dd_get 0 (language_style p) k)"
  by (simp add: style_count_def get_style_add)

lemma analyze_comment_keeps [simp]:
  "frequent_subreddits (analyze_comment U c p) = frequent_subreddits p"
  "activity_patterns (analyze_comment U c p) = activity_patterns p"
  "basic_info (analyze_comment U c p) = basic_info p"
  by (simp_all add: analyze_comment_def Let_def)

lemma analyze_post_keeps [simp]:
  "frequent_subreddits (analyze_post U q p) = frequent_subreddits p"
  "activity_patterns (analyze_post U q p) = activity_patterns p"
  "language_style (analyze_post U q p) = language_style p"
  "basic_info (analyze_post U q p) = basic_info p"
  by (simp_all add: analyze_post_def Let_def)

lemma comment_step_Inr:
  "comment_step U c p = Inr p' \<Longrightarrow>
     p' = count_activity (hour (the (strptime U (comment_created_utc c))))
            ((analyze_comment U c p)\<lparr>frequent_subreddits :=
                dd_add (comment_subreddit c) 1 (frequent_subreddits p)\<rparr>)"
  by (auto simp: comment_step_def analyze_activity_time_def Let_def split: option.splits)

lemma post_step_Inr:
  "post_step U q p = Inr p' \<Longrightarrow>
     p' = count_activity (hour (the (strptime U (post_created_utc q))))
            ((analyze_post U q p)\<lparr>frequent_subreddits :=
                dd_add (post_subreddit q) 1 (frequent_subreddits p)\<rparr>)"
  by (auto simp: post_step_def analyze_activity_time_def Let_def split: option.splits)

lemma analyze_persona_Inr:
  "analyze_persona U now ui = Inr p \<Longrightarrow>
     \<exists>age p1 p2. calculate_account_age U now (created_utc ui) = Inr age
       \<and> analyze_comments U (comments ui) (new_persona ui age) = Inr p1
       \<and> analyze_posts U (posts ui) p1 = Inr p2 \<and> p = rank p2"
  by (auto simp: analyze_persona_def split: sum.splits)

lemma ex_comment_step: "comment_step ex_unicode ex_comment ex_start = Inr ex_after_comment"
  by code_simp

lemma ex_post_step: "post_step ex_unicode ex_post ex_start = Inr ex_after_post"
  by code_simp

section \<open>Activity-time bucketer: the four intervals\<close>

text \<open>
  Claim C2. For every hour of day \<open>h\<close> the bucketer picks exactly one bucket, by
  closed-open intervals: 5 to 11 is morning, 12 to 16 afternoon, 17 to 21 evening and
  every other hour night; so 5 is morning, 4 night, 12 afternoon, 17 evening, 22 night
  and 0 night. Counting an item adds one to the count of that bucket and leaves every
  other count as it was.
\<close>

theorem time_bucket_intervals:
  "(h \<in> {5..<12} \<longrightarrow> time_bucket h = (u ''morning''))
   \<and> (h \<in> {12..<17} \<longrightarrow> time_bucket h = (u ''afternoon''))
   \<and> (h \<in> {17..<22} \<longrightarrow> time_bucket h = (u ''evening''))
   \<and> (h \<notin> {5..<22} \<longrightarrow> time_bucket h = (u ''night''))
   \<and> time_bucket 5 = (u ''morning'') \<and> time_bucket 4 = (u ''night'')
   \<and> time_bucket 12 = (u ''afternoon'') \<and> time_bucket 17 = (u ''evening'')
   \<and> time_bucket 22 = (u ''night'') \<and> time_bucket 0 = (u ''night'')
   \<and> (\<forall>k. dd_get 0 (activity_patterns (count_activity h p)) k
             = dd_get 0 (activity_patterns p) k + (if k = time_bucket h then 1 else 0))"
proof -
  have "\<forall>k. dd_get 0 (activity_patterns (count_activity h p)) k
             = dd_get 0 (activity_patterns p) k + (if k = time_bucket h then 1 else 0)"
    by (simp add: count_activity_def dd_get_add)
  moreover have "(h \<in> {5..<12} \<longrightarrow> time_bucket h = (u ''morning''))
   \<and> (h \<in> {12..<17} \<longrightarrow> time_bucket h = (u ''afternoon''))
   \<and> (h \<in> {17..<22} \<longrightarrow> time_bucket h = (u ''evening''))
   \<and> (h \<notin> {5..<22} \<longrightarrow> time_bucket h = (u ''night''))"
    by (auto simp: time_bucket_def)
  moreover have "time_bucket 5 = (u ''morning'') \<and> time_bucket 4 = (u ''night'')
   \<and> time_bucket 12 = (u ''afternoon'') \<and> time_bucket 17 = (u ''evening'')
   \<and> time_bucket 22 = (u ''night'') \<and> time_bucket 0 = (u ''night'')"
    by (simp add: time_bucket_def)
  ultimately show ?thesis by blast
qed

theorem time_bucket_intervals_witness:
  "(11::int) \<in> {5..<12} \<and> time_bucket 11 = (u ''morning'')
   \<and> (16::int) \<in> {12..<17} \<and> time_bucket 16 = (u ''afternoon'')
   \<and> (21::int) \<in> {17..<22} \<and> time_bucket 21 = (u ''evening'')
   \<and> (23::int) \<notin> {5..<22} \<and> time_bucket 23 = (u ''night'')
   \<and> dd_get 0 (activity_patterns (count_activity 21 ex_after_comment)) (u ''evening'') = 1
   \<and> dd_get 0 (activity_patterns (count_activity 21 ex_after_comment)) (u ''night'') = 1"
  using time_bucket_intervals [of 11 ex_start] time_bucket_intervals [of 16 ex_start]
    time_bucket_intervals [of 21 ex_after_comment] time_bucket_intervals [of 23 ex_start]
  by (simp add: ex_after_comment_def dd_get_def)

section \<open>The sample comment\<close>

lemma sample_lower:
  "lower U (u ''I think Python is great! Thanks for the help'')
     = (u ''i think python is great! thanks for the help'')"
  by (simp add: lower_def ascii_lower_def u_simps)

lemma sample_self_reference:
  "self_reference U (u ''i think python is great! thanks for the help'') = False"
  by code_simp

lemma sample_words:
  "length (split (u ''i think python is great! thanks for the help'')) = 9"
  by code_simp

lemma sample_rules:
  "any_in [(u ''python''), (u ''javascript''), (u ''java''), (u ''c++'')] (u ''i think python is great! thanks for the help'')"
  "\<not> any_in [(u ''game''), (u ''gaming''), (u ''playstation''), (u ''xbox'')] (u ''i think python is great! thanks for the help'')"
  "\<not> any_in [(u ''movie''), (u ''film''), (u ''netflix''), (u ''hbo'')] (u ''i think python is great! thanks for the help'')"
  "any_in [(u ''i think''), (u ''in my opinion'')] (u ''i think python is great! thanks for the help'')"
  "\<not> str_in (u ''?'') (u ''i think python is great! thanks for the help'')"
  "any_in [(u ''thanks''), (u ''thank you''), (u ''appreciate'')] (u ''i think python is great! thanks for the help'')"
  "str_in (u ''!'') (u ''i think python is great! thanks for the help'')"
  by (simp_all add: any_in_def u_simps)

lemma sample_analyze_comment:
  assumes "comment_body c = (u ''I think Python is great! Thanks for the help'')"
  shows "analyze_comment U c p =
     p\<lparr>interests := dd_append (u ''programming'') (comment_permalink c) (interests p),
       personality_traits := dd_append (u ''polite'') (comment_permalink c)
          (dd_append (u ''opinionated'') (comment_permalink c) (personality_traits p)),
       language_style := dd_add (u ''exclamation_use'') 1 (dd_add (u ''comment_length'') 9 (language_style p))\<rparr>"
  unfolding analyze_comment_def assms sample_lower Let_def
  by (simp add: sample_rules sample_self_reference sample_words tag_interest_def tag_trait_def
      style_add_def style_count_def)

text \<open>
  Claim C6. The comment body "I think Python is great! Thanks for the help" is tagged
  with the interest programming and with the traits opinionated and polite, and with
  nothing else; the exclamation counter grows by one and the self-reference counter
  stays as it was, which is 0 on a fresh persona.
\<close>

theorem sample_comment_tags:
  assumes "comment_body c = (u ''I think Python is great! Thanks for the help'')"
  shows "(\<forall>k. dd_get [] (interests (analyze_comment U c p)) k
               = (if k = (u ''programming'') then dd_get [] (interests p) k @ [comment_permalink c]
                  else dd_get [] (interests p) k))
       \<and> (\<forall>k. dd_get [] (personality_traits (analyze_comment U c p)) k
               = (if k = (u ''opinionated'') \<or> k = (u ''polite'')
                  then dd_get [] (personality_traits p) k @ [comment_permalink c]
                  else dd_get [] (personality_traits p) k))
       \<and> dd_get 0 (language_style (analyze_comment U c p)) (u ''exclamation_use'')
           = dd_get 0 (language_style p) (u ''exclamation_use'') + 1
       \<and> dd_get 0 (language_style (analyze_comment U c p)) (u ''self_reference'')
           = dd_get 0 (language_style p) (u ''self_reference'')
       \<and> map fst (interests (analyze_comment U c (new_persona ui age))) = [(u ''programming'')]
       \<and> map fst (personality_traits (analyze_comment U c (new_persona ui age)))
           = [(u ''opinionated''), (u ''polite'')]
       \<and> dd_get 0 (language_style (analyze_comment U c (new_persona ui age))) (u ''exclamation_use'') = 1
       \<and> dd_get 0 (language_style (analyze_comment U c (new_persona ui age))) (u ''self_reference'') = 0"
proof -
  have "\<forall>k. dd_get [] (interests (analyze_comment U c p)) k
               = (if k = (u ''programming'') then dd_get [] (interests p) k @ [comment_permalink c]
                  else dd_get [] (interests p) k)"
    by (simp add: sample_analyze_comment [OF assms] dd_get_append)
  moreover have "\<forall>k. dd_get [] (personality_traits (analyze_comment U c p)) k
               = (if k = (u ''opinionated'') \<or> k = (u ''polite'')
                  then dd_get [] (personality_traits p) k @ [comment_permalink c]
                  else dd_get [] (personality_traits p) k)"
    by (simp add: sample_analyze_comment [OF assms] dd_get_append)
  moreover have "dd_get 0 (language_style (analyze_comment U c p)) (u ''exclamation_use'')
           = dd_get 0 (language_style p) (u ''exclamation_use'') + 1"
    by (simp add: sample_analyze_comment [OF assms] dd_get_add)
  moreover have "dd_get 0 (language_style (analyze_comment U c p)) (u ''self_reference'')
           = dd_get 0 (language_style p) (u ''self_reference'')"
    by (simp add: sample_analyze_comment [OF assms] dd_get_add)
  moreover have "map fst (interests (analyze_comment U c (new_persona ui age))) = [(u ''programming'')]"
    by (simp add: sample_analyze_comment [OF assms] new_persona_def dd_append_def)
  moreover have "map fst (personality_traits (analyze_comment U c (new_persona ui age)))
           = [(u ''opinionated''), (u ''polite'')]"
    by (simp add: sample_analyze_comment [OF assms] new_persona_def dd_append_def)
  moreover have
    "dd_get 0 (language_style (analyze_comment U c (new_persona ui age))) (u ''exclamation_use'') = 1"
    by (simp add: sample_analyze_comment [OF assms] new_persona_def dd_add_def dd_get_def)
  moreover have
    "dd_get 0 (language_style (analyze_comment U c (new_persona ui age))) (u ''self_reference'') = 0"
    by (simp add: sample_analyze_comment [OF assms] new_persona_def dd_add_def dd_get_def)
  ultimately show ?thesis by blast
qed

theorem sample_comment_tags_witness:
  "comment_body ex_comment = (u ''I think Python is great! Thanks for the help'')
   \<and> dd_get [] (interests (analyze_comment ex_unicode ex_comment ex_start)) (u ''programming'')
       = [(u ''https://reddit.com/r/learnpython/c1'')]
   \<and> dd_get [] (interests (analyze_comment ex_unicode ex_comment ex_start)) (u ''gaming'') = []
   \<and> dd_get [] (personality_traits (analyze_comment ex_unicode ex_comment ex_start)) (u ''polite'')
       = [(u ''https://reddit.com/r/learnpython/c1'')]
   \<and> dd_get [] (personality_traits (analyze_comment ex_unicode ex_comment ex_start)) (u ''inquisitive'') = []
   \<and> dd_get 0 (language_style (analyze_comment ex_unicode ex_comment ex_start)) (u ''exclamation_use'') = 1
   \<and> dd_get 0 (language_style (analyze_comment ex_unicode ex_comment ex_start)) (u ''self_reference'') = 0"
proof -
  have b: "comment_body ex_comment = (u ''I think Python is great! Thanks for the help'')"
    by (simp add: ex_comment_def)
  show ?thesis
    using b sample_comment_tags [OF b, where U = ex_unicode and p = ex_start and ui = ex_user
        and age = "u ''6 years, 8 months''"]
    by (simp add: ex_start_def new_persona_def dd_get_def ex_comment_def)
qed

section \<open>One citation per category and one count per item\<close>

lemma analyze_comment_interests:
  "dd_get [] (interests (analyze_comment U c p)) k = dd_get [] (interests p) k
   \<or> dd_get [] (interests (analyze_comment U c p)) k = dd_get [] (interests p) k @ [comment_permalink c]"
  by (simp add: analyze_comment_def Let_def get_tag_interest)

lemma analyze_comment_traits:
  "dd_get [] (personality_traits (analyze_comment U c p)) k = dd_get [] (personality_traits p) k
   \<or> dd_get [] (personality_traits (analyze_comment U c p)) k
        = dd_get [] (personality_traits p) k @ [comment_permalink c]"
  by (simp add: analyze_comment_def Let_def get_tag_trait)

lemma analyze_post_interests:
  "dd_get [] (interests (analyze_post U q p)) k = dd_get [] (interests p) k
   \<or> dd_get [] (interests (analyze_post U q p)) k = dd_get [] (interests p) k @ [post_permalink q]"
  by (simp add: analyze_post_def Let_def get_tag_interest)

lemma analyze_post_traits:
  "dd_get [] (personality_traits (analyze_post U q p)) k = dd_get [] (personality_traits p) k
   \<or> dd_get [] (personality_traits (analyze_post U q p)) k
        = dd_get [] (personality_traits p) k @ [post_permalink q]"
  by (simp add: analyze_post_def Let_def get_tag_trait)

text \<open>
  Claim C7. In the body of each loop, for a comment and for a post alike, the
  citation list of every interest and of every trait either stays as it was or gains
  the permalink of the item once at its end, and the count of the item's subreddit
  grows by exactly one while every other subreddit count is unchanged, whatever the
  rules that matched.
\<close>

theorem one_citation_one_count:
  "(comment_step U c p = Inr p' \<longrightarrow>
      (\<forall>k. dd_get [] (interests p') k = dd_get [] (interests p) k
          \<or> dd_get [] (interests p') k = dd_get [] (interests p) k @ [comment_permalink c])
    \<and> (\<forall>k. dd_get [] (personality_traits p') k = dd_get [] (personality_traits p) k
          \<or> dd_get [] (personality_traits p') k
               = dd_get [] (personality_traits p) k @ [comment_permalink c])
    \<and> (\<forall>s. dd_get 0 (frequent_subreddits p') s
              = dd_get 0 (frequent_subreddits p) s + (if s = comment_subreddit c then 1 else 0)))
   \<and> (post_step U q p = Inr pq \<longrightarrow>
      (\<forall>k. dd_get [] (interests pq) k = dd_get [] (interests p) k
          \<or> dd_get [] (interests pq) k = dd_get [] (interests p) k @ [post_permalink q])
    \<and> (\<forall>k. dd_get [] (personality_traits pq) k = dd_get [] (personality_traits p) k
          \<or> dd_get [] (personality_traits pq) k
               = dd_get [] (personality_traits p) k @ [post_permalink q])
    \<and> (\<forall>s. dd_get 0 (frequent_subreddits pq) s
              = dd_get 0 (frequent_subreddits p) s + (if s = post_subreddit q then 1 else 0)))"
proof (intro conjI impI)
  assume "comment_step U c p = Inr p'"
  then have p': "p' = count_activity (hour (the (strptime U (comment_created_utc c))))
              ((analyze_comment U c p)\<lparr>frequent_subreddits :=
                  dd_add (comment_subreddit c) 1 (frequent_subreddits p)\<rparr>)"
    by (rule comment_step_Inr)
  show "\<forall>k. dd_get [] (interests p') k = dd_get [] (interests p) k
          \<or> dd_get [] (interests p') k = dd_get [] (interests p) k @ [comment_permalink c]"
    using analyze_comment_interests by (simp add: p')
  show "\<forall>k. dd_get [] (personality_traits p') k = dd_get [] (personality_traits p) k
          \<or> dd_get [] (personality_traits p') k
               = dd_get [] (personality_traits p) k @ [comment_permalink c]"
    using analyze_comment_traits by (simp add: p')
  show "\<forall>s. dd_get 0 (frequent_subreddits p') s
              = dd_get 0 (frequent_subreddits p) s + (if s = comment_subreddit c then 1 else 0)"
    by (simp add: p' dd_get_add)
next
  assume "post_step U q p = Inr pq"
  then have p': "pq = count_activity (hour (the (strptime U (post_created_utc q))))
              ((analyze_post U q p)\<lparr>frequent_subreddits :=
                  dd_add (post_subreddit q) 1 (frequent_subreddits p)\<rparr>)"
    by (rule post_step_Inr)
  show "\<forall>k. dd_get [] (interests pq) k = dd_get [] (interests p) k
          \<or> dd_get [] (interests pq) k = dd_get [] (interests p) k @ [post_permalink q]"
    using analyze_post_interests by (simp add: p')
  show "\<forall>k. dd_get [] (personality_traits pq) k = dd_get [] (personality_traits p) k
          \<or> dd_get [] (personality_traits pq) k
               = dd_get [] (personality_traits p) k @ [post_permalink q]"
    using analyze_post_traits by (simp add: p')
  show "\<forall>s. dd_get 0 (frequent_subreddits pq) s
              = dd_get 0 (frequent_subreddits p) s + (if s = post_subreddit q then 1 else 0)"
    by (simp add: p' dd_get_add)
qed

theorem one_citation_one_count_witness:
  "comment_step ex_unicode ex_comment ex_start = Inr ex_after_comment
   \<and> post_step ex_unicode ex_post ex_start = Inr ex_after_post
   \<and> dd_get [] (interests ex_after_comment) (u ''programming'')
       = dd_get [] (interests ex_start) (u ''programming'') @ [comment_permalink ex_comment]
   \<and> dd_get [] (interests ex_after_comment) (u ''gaming'') = dd_get [] (interests ex_start) (u ''gaming'')
   \<and> dd_get 0 (frequent_subreddits ex_after_comment) (u ''learnpython'') = 1
   \<and> dd_get 0 (frequent_subreddits ex_after_post) (u ''laptops'') = 1
   \<and> dd_get 0 (frequent_subreddits ex_after_post) (u ''learnpython'') = 0"
  using ex_comment_step ex_post_step
    one_citation_one_count [where U = ex_unicode and c = ex_comment and p = ex_start
      and p' = ex_after_comment and q = ex_post and pq = ex_after_post]
  by (simp add: ex_after_comment_def ex_after_post_def ex_start_def new_persona_def dd_get_def
      ex_comment_def)

section \<open>Language-style totals\<close>

lemma analyze_comment_style:
  "dd_get 0 (language_style (analyze_comment U c p)) (u ''comment_length'')
     = dd_get 0 (language_style p) (u ''comment_length'') + length (split (lower U (comment_body c)))"
  "dd_get 0 (language_style (analyze_comment U c p)) (u ''exclamation_use'')
     = dd_get 0 (language_style p) (u ''exclamation_use'')
       + (if str_in (u ''!'') (lower U (comment_body c)) then 1 else 0)"
  "dd_get 0 (language_style (analyze_comment U c p)) (u ''self_reference'')
     = dd_get 0 (language_style p) (u ''self_reference'')
       + (if self_reference U (lower U (comment_body c)) then 1 else 0)"
  by (simp_all add: analyze_comment_def Let_def get_style_add get_style_count)

lemma comment_step_style:
  "comment_step U c p = Inr p' \<Longrightarrow> language_style p' = language_style (analyze_comment U c p)"
  by (drule comment_step_Inr) simp

lemma post_step_style:
  "post_step U q p = Inr p' \<Longrightarrow> language_style p' = language_style p"
  by (drule post_step_Inr) simp

lemma analyze_posts_style:
  "analyze_posts U qs p = Inr p' \<Longrightarrow> language_style p' = language_style p"
proof (induction qs arbitrary: p)
  case Nil
  then show ?case by simp
next
  case (Cons q qs)
  then obtain p1 where s: "post_step U q p = Inr p1" and r: "analyze_posts U qs p1 = Inr p'"
    by (auto split: sum.splits)
  from Cons.IH [OF r] post_step_style [OF s] show ?case by simp
qed

lemma analyze_comments_style:
  assumes "analyze_comments U cs p = Inr p'"
  shows "dd_get 0 (language_style p') (u ''comment_length'')
           = dd_get 0 (language_style p) (u ''comment_length'')
             + sum_list (map (\<lambda>c. length (split (lower U (comment_body c)))) cs)"
    and "dd_get 0 (language_style p') (u ''exclamation_use'')
           = dd_get 0 (language_style p) (u ''exclamation_use'')
             + length (filter (\<lambda>c. str_in (u ''!'') (lower U (comment_body c))) cs)"
    and "dd_get 0 (language_style p') (u ''self_reference'')
           = dd_get 0 (language_style p) (u ''self_reference'')
             + length (filter (\<lambda>c. self_reference U (lower U (comment_body c))) cs)"
  using assms
proof (induction cs arbitrary: p)
  case Nil
  { case 1 then show ?case by simp }
  { case 2 then show ?case by simp }
  { case 3 then show ?case by simp }
next
  case (Cons c cs)
  { case 1
    then obtain p1 where s: "comment_step U c p = Inr p1" and r: "analyze_comments U cs p1 = Inr p'"
      by (auto split: sum.splits)
    from Cons.IH(1) [OF r] comment_step_style [OF s] show ?case
      by (simp add: analyze_comment_style) }
  { case 2
    then obtain p1 where s: "comment_step U c p = Inr p1" and r: "analyze_comments U cs p1 = Inr p'"
      by (auto split: sum.splits)
    from Cons.IH(2) [OF r] comment_step_style [OF s] show ?case
      by (simp add: analyze_comment_style) }
  { case 3
    then obtain p1 where s: "comment_step U c p = Inr p1" and r: "analyze_comments U cs p1 = Inr p'"
      by (auto split: sum.splits)
    from Cons.IH(3) [OF r] comment_step_style [OF s] show ?case
      by (simp add: analyze_comment_style) }
qed

lemma rank_fields [simp]:
  "interests (rank p) = interests p"
  "personality_traits (rank p) = personality_traits p"
  "frequent_subreddits (rank p) = frequent_subreddits p"
  "activity_patterns (rank p) = activity_patterns p"
  "language_style (rank p) = language_style p"
  "basic_info (rank p) = basic_info p"
  "top_interests (rank p) = top5 (\<lambda>x. length (snd x)) (interests p)"
  "top_subreddits (rank p) = top5 snd (frequent_subreddits p)"
  by (simp_all add: rank_def)

lemma ex_both_analysis: "analyze_persona ex_unicode ex_now ex_both = Inr ex_both_persona"
  by code_simp

lemma ex_latin_analysis: "analyze_persona ex_unicode ex_now ex_latin = Inr ex_latin_persona"
  by code_simp

lemma ex_latin_totals:
  "sum_list (map (\<lambda>c. length (split (lower ex_unicode (comment_body c)))) (comments ex_latin)) = 9"
  "length (filter (\<lambda>c. str_in (u ''!'') (lower ex_unicode (comment_body c))) (comments ex_latin)) = 1"
  "length (filter (\<lambda>c. self_reference ex_unicode (lower ex_unicode (comment_body c)))
     (comments ex_latin)) = 1"
  "map (\<lambda>c. length (split (lower ex_unicode (comment_body c)))) (comments ex_latin) = [6, 3]"
  "map (\<lambda>c. self_reference ex_unicode (lower ex_unicode (comment_body c))) (comments ex_latin)
     = [True, False]"
  by code_simp+

lemma ex_post_only_analysis: "analyze_persona ex_unicode ex_now ex_post_only = Inr ex_post_persona"
  by code_simp

lemma ex_plain_only_analysis: "analyze_persona ex_unicode ex_now ex_plain_only = Inr ex_plain_persona"
  by code_simp

lemma ex_user_analysis: "analyze_persona ex_unicode ex_now ex_user = Inr ex_start"
  by code_simp

text \<open>
  Claim C3, as the specification states it, fails: the totals are not taken over the
  posts. For the account with one post, "Need advice: what laptop should I buy?" with
  the text "Wow, my budget is low!", the specification's totals are 12 words, one item
  with an exclamation mark and one with a self-reference, and the analysis leaves all
  three counters at 0.
\<close>

theorem language_totals_skip_posts:
  "analyze_persona ex_unicode ex_now ex_post_only = Inr ex_post_persona
   \<and> dd_get 0 (language_style ex_post_persona) (u ''comment_length'') = 0
   \<and> spec_word_total ex_unicode ex_post_only = 12
   \<and> dd_get 0 (language_style ex_post_persona) (u ''exclamation_use'') = 0
   \<and> spec_exclamation_total ex_unicode ex_post_only = 1
   \<and> dd_get 0 (language_style ex_post_persona) (u ''self_reference'') = 0
   \<and> spec_self_reference_total ex_unicode ex_post_only = 1"
proof -
  have "spec_word_total ex_unicode ex_post_only = 12" by code_simp
  moreover have "spec_exclamation_total ex_unicode ex_post_only = 1" by code_simp
  moreover have "spec_self_reference_total ex_unicode ex_post_only = 1" by code_simp
  moreover have "language_style ex_post_persona = []"
    by (simp add: ex_post_persona_def ex_after_post_def ex_start_def new_persona_def)
  ultimately show ?thesis
    using ex_post_only_analysis by (simp add: dd_get_def)
qed

text \<open>
  Claim C3, amended. The language-style totals are taken over the comments only, in
  order: when the analysis returns, the word total is the sum of the word counts of
  the lowercased comment bodies, the exclamation counter is the number of comments
  whose body contains "!", and the self-reference counter is the number of comments
  whose lowercased body has a whole-word match of i'm, i am, me or my. Posts add
  nothing to the three counters.
\<close>

theorem language_totals_over_comments:
  assumes "analyze_persona U now ui = Inr p"
  shows "dd_get 0 (language_style p) (u ''comment_length'')
           = sum_list (map (\<lambda>c. length (split (lower U (comment_body c)))) (comments ui))
       \<and> dd_get 0 (language_style p) (u ''exclamation_use'')
           = length (filter (\<lambda>c. str_in (u ''!'') (lower U (comment_body c))) (comments ui))
       \<and> dd_get 0 (language_style p) (u ''self_reference'')
           = length (filter (\<lambda>c. self_reference U (lower U (comment_body c))) (comments ui))"
proof -
  from analyze_persona_Inr [OF assms] obtain age p1 p2 where
    a: "analyze_comments U (comments ui) (new_persona ui age) = Inr p1"
    and b: "analyze_posts U (posts ui) p1 = Inr p2" and c: "p = rank p2"
    by blast
  have l: "language_style p = language_style p1"
    using analyze_posts_style [OF b] by (simp add: c)
  have z: "language_style (new_persona ui age) = []"
    by (simp add: new_persona_def)
  show ?thesis
    using analyze_comments_style [OF a] by (simp add: l z dd_get_def)
qed

theorem language_totals_over_comments_witness:
  "analyze_persona ex_unicode ex_now ex_latin = Inr ex_latin_persona
   \<and> dd_get 0 (language_style ex_latin_persona) (u ''comment_length'') = 9
   \<and> dd_get 0 (language_style ex_latin_persona) (u ''exclamation_use'') = 1
   \<and> dd_get 0 (language_style ex_latin_persona) (u ''self_reference'') = 1
   \<and> map (\<lambda>c. length (split (lower ex_unicode (comment_body c)))) (comments ex_latin) = [6, 3]
   \<and> map (\<lambda>c. self_reference ex_unicode (lower ex_unicode (comment_body c))) (comments ex_latin)
       = [True, False]"
  using ex_latin_analysis ex_latin_totals language_totals_over_comments [OF ex_latin_analysis]
  by simp

section \<open>Ranker\<close>

lemma sorted_reverse_mset: "mset (sorted_reverse key xs) = mset xs"
  by (simp add: sorted_reverse_def)

lemma sorted_reverse_desc: "sorted_wrt (\<lambda>x y. key y \<le> key x) (sorted_reverse key xs)"
  unfolding sorted_reverse_def sorted_wrt_rev
  using sorted_sort_key [of key "rev xs"] by (simp add: sorted_map)

lemma sorted_reverse_stable:
  "filter (\<lambda>x. key x = k) (sorted_reverse key xs) = filter (\<lambda>x. key x = k) xs"
  by (simp add: sorted_reverse_def rev_filter [symmetric] sort_key_stable)

text \<open>A category enters a dictionary at the end, the first time it is met.\<close>

lemma dd_upd_keys:
  "map fst (dd_upd k f d m) = (if k \<in> set (map fst m) then map fst m else map fst m @ [k])"
  by (induction m) force+

text \<open>
  Claim C4. The top interests of an analysis are the first five of a list that holds
  the same entries as the interests dictionary, in descending order of the number of
  citations, and in which the entries of equal number keep the order they have in the
  dictionary, which is the order of first encounter. The top subreddits are the same
  of the subreddit dictionary, by count. For the counts a:3, b:3, c:5 met in the order
  a, b, c the ranking is c, a, b.
\<close>

theorem top5_stable_ranking:
  assumes "analyze_persona U now ui = Inr p"
  shows "(\<exists>ys zs.
      top_interests p = take 5 ys \<and> mset ys = mset (interests p)
      \<and> sorted_wrt (\<lambda>x y. length (snd y) \<le> length (snd x)) ys
      \<and> (\<forall>n. filter (\<lambda>x. length (snd x) = n) ys = filter (\<lambda>x. length (snd x) = n) (interests p))
      \<and> top_subreddits p = take 5 zs \<and> mset zs = mset (frequent_subreddits p)
      \<and> sorted_wrt (\<lambda>x y. snd y \<le> snd x) zs
      \<and> (\<forall>n. filter (\<lambda>x. snd x = n) zs = filter (\<lambda>x. snd x = n) (frequent_subreddits p)))
    \<and> top5 (\<lambda>x. length (snd x))
         [((u ''a''), [(u ''u1''), (u ''u2''), (u ''u3'')]), ((u ''b''), [(u ''u4''), (u ''u5''), (u ''u6'')]),
          ((u ''c''), [(u ''u1''), (u ''u2''), (u ''u3''), (u ''u4''), (u ''u5'')])]
       = [((u ''c''), [(u ''u1''), (u ''u2''), (u ''u3''), (u ''u4''), (u ''u5'')]), ((u ''a''), [(u ''u1''), (u ''u2''), (u ''u3'')]),
          ((u ''b''), [(u ''u4''), (u ''u5''), (u ''u6'')])]
    \<and> top5 snd [((u ''a''), 3), ((u ''b''), 3), ((u ''c''), 5)] = [((u ''c''), 5), ((u ''a''), 3), ((u ''b''), 3)]"
proof -
  from analyze_persona_Inr [OF assms] obtain p2 where p: "p = rank p2" by blast
  let ?ys = "sorted_reverse (\<lambda>x. length (snd x)) (interests p)"
  let ?zs = "sorted_reverse snd (frequent_subreddits p)"
  have "top_interests p = take 5 ?ys" "top_subreddits p = take 5 ?zs"
    by (simp_all add: p top5_def)
  moreover have "mset ?ys = mset (interests p)" "mset ?zs = mset (frequent_subreddits p)"
    by (rule sorted_reverse_mset)+
  moreover have "sorted_wrt (\<lambda>x y. length (snd y) \<le> length (snd x)) ?ys"
    "sorted_wrt (\<lambda>x y. snd y \<le> snd x) ?zs"
    by (rule sorted_reverse_desc)+
  moreover have
    "\<forall>n. filter (\<lambda>x. length (snd x) = n) ?ys = filter (\<lambda>x. length (snd x) = n) (interests p)"
    "\<forall>n. filter (\<lambda>x. snd x = n) ?zs = filter (\<lambda>x. snd x = n) (frequent_subreddits p)"
    by (simp_all add: sorted_reverse_stable)
  ultimately have general: "\<exists>ys zs.
      top_interests p = take 5 ys \<and> mset ys = mset (interests p)
      \<and> sorted_wrt (\<lambda>x y. length (snd y) \<le> length (snd x)) ys
      \<and> (\<forall>n. filter (\<lambda>x. length (snd x) = n) ys = filter (\<lambda>x. length (snd x) = n) (interests p))
      \<and> top_subreddits p = take 5 zs \<and> mset zs = mset (frequent_subreddits p)
      \<and> sorted_wrt (\<lambda>x y. snd y \<le> snd x) zs
      \<and> (\<forall>n. filter (\<lambda>x. snd x = n) zs = filter (\<lambda>x. snd x = n) (frequent_subreddits p))"
    by blast
  have "top5 (\<lambda>x. length (snd x))
         [((u ''a''), [(u ''u1''), (u ''u2''), (u ''u3'')]), ((u ''b''), [(u ''u4''), (u ''u5''), (u ''u6'')]),
          ((u ''c''), [(u ''u1''), (u ''u2''), (u ''u3''), (u ''u4''), (u ''u5'')])]
       = [((u ''c''), [(u ''u1''), (u ''u2''), (u ''u3''), (u ''u4''), (u ''u5'')]), ((u ''a''), [(u ''u1''), (u ''u2''), (u ''u3'')]),
          ((u ''b''), [(u ''u4''), (u ''u5''), (u ''u6'')])]"
    by (simp add: top5_def sorted_reverse_def)
  moreover have "top5 snd [((u ''a''), 3), ((u ''b''), 3), ((u ''c''), 5)] = [((u ''c''), 5), ((u ''a''), 3), ((u ''b''), 3)]"
    by (simp add: top5_def sorted_reverse_def)
  ultimately show ?thesis using general by blast
qed

theorem top5_stable_ranking_witness:
  "analyze_persona ex_unicode ex_now ex_both = Inr ex_both_persona
   \<and> top_interests ex_both_persona
       = [((u ''programming''), [(u ''https://reddit.com/r/learnpython/c1'')]),
          ((u ''help_seeking''), [(u ''https://reddit.com/r/laptops/p1'')])]
   \<and> top_subreddits ex_both_persona = [((u ''learnpython''), 1), ((u ''pics''), 1), ((u ''laptops''), 1)]
   \<and> (\<exists>ys. top_interests ex_both_persona = take 5 ys \<and> mset ys = mset (interests ex_both_persona))"
  using ex_both_analysis top5_stable_ranking [OF ex_both_analysis]
  by (simp add: ex_both_persona_def) blast

section \<open>Report of an account without activity\<close>

lemma empty_analysis:
  assumes "comments ui = []" "posts ui = []" "analyze_persona U now ui = Inr p"
  shows "\<exists>age. p = rank (new_persona ui age)"
  using assms by (auto simp: analyze_persona_def split: sum.splits)

text \<open>
  Claim C5. For a persona built from no comment and no post, writing the report does
  not raise. The activity mapping is empty, so no percentage is computed and the
  activity section is its heading alone; the word total is 0, so no average is
  computed and the language-style section is its heading alone.
\<close>

theorem empty_activity_report:
  assumes "comments ui = []" "posts ui = []" "analyze_persona U now ui = Inr p"
  shows "snd (generate_persona_file U p) = None
    \<and> activity_patterns p = []
    \<and> write_activity_patterns p = ((u ''== ACTIVITY PATTERNS =='') @ NL @ NL, None)
    \<and> write_language_style p = ((u ''== LANGUAGE STYLE =='') @ NL @ NL, None)"
proof -
  from empty_analysis [OF assms] obtain age where p: "p = rank (new_persona ui age)" ..
  have a: "activity_patterns p = []" and l: "language_style p = []"
    by (simp_all add: p new_persona_def)
  have wa: "write_activity_patterns p = ((u ''== ACTIVITY PATTERNS =='') @ NL @ NL, None)"
    by (simp add: write_activity_patterns_def a)
  have wl: "write_language_style p = ((u ''== LANGUAGE STYLE =='') @ NL @ NL, None)"
    by (simp add: write_language_style_def style_flags_def l dd_get_def)
  have "snd (generate_persona_file U p) = None"
    by (simp add: generate_persona_file_def wa wl)
  with a wa wl show ?thesis by simp
qed

theorem empty_activity_report_witness:
  "comments ex_user = [] \<and> posts ex_user = []
   \<and> analyze_persona ex_unicode ex_now ex_user = Inr ex_start
   \<and> snd (generate_persona_file ex_unicode ex_start) = None
   \<and> write_activity_patterns ex_start = ((u ''== ACTIVITY PATTERNS =='') @ NL @ NL, None)"
proof -
  have c: "comments ex_user = []" and q: "posts ex_user = []"
    by (simp_all add: ex_user_def)
  show ?thesis
    using c q ex_user_analysis empty_activity_report [OF c q ex_user_analysis] by simp
qed

section \<open>The percentage of the only bucket\<close>

lemma float_round_one: "float_round 1 = Some 1"
  by code_simp

lemma float_round_hundred: "float_round 100 = Some 100"
  by code_simp

lemma fmt_hundred: "fmt_1f (Fin 100) = (u ''100.0'')"
  by code_simp

lemma percentage_all: "0 < n \<Longrightarrow> percentage n n = Inr (Fin 100)"
  by (simp add: percentage_def truediv_def float_round_one float_mul_def float_round_hundred)

lemma write_night_only:
  assumes "0 < n" and "activity_patterns p = [((u ''night''), n)]"
  shows "write_activity_patterns p =
     ((u ''== ACTIVITY PATTERNS =='') @ NL @ (u ''- Most active during night: 100.0% of activity'') @ NL @ NL,
      None)"
  using assms by (simp add: write_activity_patterns_def percentage_all fmt_hundred u_simps)

section \<open>The average comment length\<close>

lemma zero_denominator:
  assumes "0 < dd_get 0 (language_style p) (u ''comment_length'')"
    and "interests p = []" and "personality_traits p = []"
  shows "write_language_style p = ((u ''== LANGUAGE STYLE =='') @ NL, Some ZeroDivisionError)"
  using assms by (simp add: write_language_style_def truediv_def)

text \<open>
  Claim C1 says that the average is not computed when no interest and no trait was
  met. The code tests the word total instead of the divisor. For the account whose
  only activity is the comment "hello world" the word total is 2, both dictionaries are
  empty, and writing the report raises ZeroDivisionError after the heading of the
  language-style section.
\<close>

theorem zero_denominator_raises:
  "analyze_persona ex_unicode ex_now ex_plain_only = Inr ex_plain_persona
   \<and> dd_get 0 (language_style ex_plain_persona) (u ''comment_length'') = 2
   \<and> length (personality_traits ex_plain_persona) + length (interests ex_plain_persona) = 0
   \<and> write_language_style ex_plain_persona
       = ((u ''== LANGUAGE STYLE =='') @ NL, Some ZeroDivisionError)
   \<and> snd (generate_persona_file ex_unicode ex_plain_persona) = Some ZeroDivisionError"
proof -
  have f: "dd_get 0 (language_style ex_plain_persona) (u ''comment_length'') = 2"
    "interests ex_plain_persona = []" "personality_traits ex_plain_persona = []"
    by (simp_all add: ex_plain_persona_def ex_start_def new_persona_def dd_get_def)
  have w: "write_language_style ex_plain_persona
       = ((u ''== LANGUAGE STYLE =='') @ NL, Some ZeroDivisionError)"
    by (rule zero_denominator) (simp_all add: f)
  have act: "activity_patterns ex_plain_persona = [(u ''night'', 1)]"
    by (simp add: ex_plain_persona_def)
  have a: "write_activity_patterns ex_plain_persona =
     (u ''== ACTIVITY PATTERNS =='' @ NL @ u ''- Most active during night: 100.0% of activity''
      @ NL @ NL, None)"
    using write_night_only [OF _ act] by simp
  have "snd (generate_persona_file ex_unicode ex_plain_persona) = Some ZeroDivisionError"
    by (simp add: generate_persona_file_def a w)
  with f w ex_plain_only_analysis show ?thesis by simp
qed

section \<open>Runs that end before the analysis\<close>

lemma split_sep_nonempty: "split_sep sep cur s \<noteq> []"
  by (induction sep cur s rule: split_sep.induct) auto

lemma extract_fails_iff:
  "snd (extract_user_info api name) = None \<longleftrightarrow> (\<exists>msg. api name = Inl msg)"
  by (cases "api name") (simp_all add: extract_user_info_def)

lemma ex_ghost_name: "parse_username (u ''https://www.reddit.com/user/ghost/'') = (u ''ghost'')"
  by code_simp

lemma ex_bare_name: "parse_username (u ''ghost'') = (u ''ghost'')"
  by code_simp

lemma ex_blank_name: "parse_username [0xA0, 0x3000] = []"
  by code_simp

lemma ex_empty_name: "parse_username (u ''https://www.reddit.com/user/'') = []"
  by code_simp

text \<open>
  Claim C8, as the specification states it, fails in one point: a fetch failure is
  reported with two messages, not one. \<open>extract_user_info\<close> prints the text of the
  exception and \<open>main\<close> then prints its own message.
\<close>

theorem fetch_failure_two_messages:
  "main ex_unicode ex_api_fail ex_now (u ''https://www.reddit.com/user/ghost/'') =
     (banner @ [Print (NL @ (u ''Fetching data for user: ghost...'')),
                Fetch (u ''ghost''),
                Print (u ''Error fetching user data: received 404 HTTP response''),
                Print (u ''Failed to fetch user data. Please check the username and try again.'')],
      None)"
  by (simp add: main_def ex_ghost_name extract_user_info_def ex_api_fail_def Let_def)
    (simp add: u_simps)

text \<open>
  Claim C8, amended. When the user name is not empty and the fetch fails,
  \<open>extract_user_info\<close> returns nothing, the failure is reported with two messages
  (the text of the exception, then the advice to check the user name), the run ends
  there without an exception, and no report file is written, in part or in whole:
  \<open>generate_persona_file\<close> is not reached.
\<close>

theorem fetch_failure_run:
  assumes "parse_username line \<noteq> []" and "api (parse_username line) = Inl msg"
  shows "snd (extract_user_info api (parse_username line)) = None
    \<and> main U api now line =
       (banner @ [Print (NL @ (u ''Fetching data for user: '') @ parse_username line @ (u ''...'')),
                  Fetch (parse_username line),
                  Print ((u ''Error fetching user data: '') @ msg),
                  Print (u ''Failed to fetch user data. Please check the username and try again.'')],
        None)
    \<and> (\<forall>f t. WriteFile f t \<notin> set (fst (main U api now line)))"
  using assms by (simp add: main_def extract_user_info_def Let_def banner_def)

theorem fetch_failure_run_witness:
  "parse_username (u ''ghost'') \<noteq> []
   \<and> ex_api_fail (parse_username (u ''ghost'')) = Inl (u ''received 404 HTTP response'')
   \<and> snd (extract_user_info ex_api_fail (parse_username (u ''ghost''))) = None
   \<and> snd (main ex_unicode ex_api_fail ex_now (u ''ghost'')) = None
   \<and> WriteFile (u ''reddit_persona_ghost.txt'') [] \<notin> set (fst (main ex_unicode ex_api_fail ex_now (u ''ghost'')))"
proof -
  have n: "parse_username (u ''ghost'') \<noteq> []"
    by (simp add: ex_bare_name)
  have a: "ex_api_fail (parse_username (u ''ghost'')) = Inl (u ''received 404 HTTP response'')"
    by (simp add: ex_api_fail_def)
  note run = fetch_failure_run [where U = ex_unicode and api = ex_api_fail
      and line = "u ''ghost''" and now = ex_now, OF n a]
  from run have e: "snd (extract_user_info ex_api_fail (parse_username (u ''ghost''))) = None"
    by blast
  from run have r: "snd (main ex_unicode ex_api_fail ex_now (u ''ghost'')) = None"
    by simp
  from run have
    w: "WriteFile (u ''reddit_persona_ghost.txt'') [] \<notin> set (fst (main ex_unicode ex_api_fail ex_now (u ''ghost'')))"
    by blast
  from n a e r w show ?thesis by blast
qed

text \<open>
  Claim C9. When the user name is empty after the text up to the last \<open>/user/\<close> and
  the slashes at both ends are removed, the run prints the error message right after
  the prompt and ends: no request is made to the platform.
\<close>

theorem empty_username_run:
  assumes "parse_username line = []"
  shows "main U api now line =
       (banner @ [Print (u ''Invalid Reddit profile URL. Please include the username.'')], None)
    \<and> (\<forall>name. Fetch name \<notin> set (fst (main U api now line)))"
  using assms by (simp add: main_def banner_def)

theorem empty_username_run_witness:
  "parse_username (u ''https://www.reddit.com/user/'') = []
   \<and> parse_username [0xA0, 0x3000] = []
   \<and> main ex_unicode ex_api_fail ex_now [0xA0, 0x3000]
       = (banner @ [Print (u ''Invalid Reddit profile URL. Please include the username.'')], None)
   \<and> main ex_unicode ex_api_fail ex_now (u ''https://www.reddit.com/user/'')
       = (banner @ [Print (u ''Invalid Reddit profile URL. Please include the username.'')], None)
   \<and> Fetch [] \<notin> set (fst (main ex_unicode ex_api_fail ex_now [0xA0, 0x3000]))"
  using ex_empty_name ex_blank_name
    empty_username_run [OF ex_blank_name, where U = ex_unicode and api = ex_api_fail and now = ex_now]
    empty_username_run [OF ex_empty_name, where U = ex_unicode and api = ex_api_fail and now = ex_now]
  by blast

section \<open>Every item counts as night\<close>

lemma strptime_midnight: "strptime U s = Some dt \<Longrightarrow> hour dt = 0"
  by (auto simp: strptime_def Let_def split: if_splits option.splits)

lemma activity_time_night:
  "analyze_activity_time U ts p = Inr p' \<Longrightarrow>
     p' = p\<lparr>activity_patterns := dd_add (u ''night'') 1 (activity_patterns p)\<rparr>"
  by (auto simp: analyze_activity_time_def count_activity_def time_bucket_def
      dest: strptime_midnight split: option.splits)

lemma night_only_add: "dd_add (u ''night'') (Suc 0) (night_only n) = night_only (Suc n)"
  by (simp add: night_only_def dd_add_def)

lemma comment_step_night:
  "comment_step U c p = Inr p' \<Longrightarrow> activity_patterns p = night_only n \<Longrightarrow>
     activity_patterns p' = night_only (Suc n)"
  by (auto simp: comment_step_def Let_def night_only_add dest!: activity_time_night)

lemma post_step_night:
  "post_step U q p = Inr p' \<Longrightarrow> activity_patterns p = night_only n \<Longrightarrow>
     activity_patterns p' = night_only (Suc n)"
  by (auto simp: post_step_def Let_def night_only_add dest!: activity_time_night)

lemma analyze_comments_night:
  "analyze_comments U cs p = Inr p' \<Longrightarrow> activity_patterns p = night_only n \<Longrightarrow>
     activity_patterns p' = night_only (n + length cs)"
proof (induction cs arbitrary: p n)
  case Nil
  then show ?case by simp
next
  case (Cons c cs)
  from Cons.prems(1) obtain p1 where s: "comment_step U c p = Inr p1"
    and r: "analyze_comments U cs p1 = Inr p'"
    by (auto split: sum.splits)
  from Cons.IH [OF r comment_step_night [OF s Cons.prems(2)]] show ?case by simp
qed

lemma analyze_posts_night:
  "analyze_posts U qs p = Inr p' \<Longrightarrow> activity_patterns p = night_only n \<Longrightarrow>
     activity_patterns p' = night_only (n + length qs)"
proof (induction qs arbitrary: p n)
  case Nil
  then show ?case by simp
next
  case (Cons q qs)
  from Cons.prems(1) obtain p1 where s: "post_step U q p = Inr p1"
    and r: "analyze_posts U qs p1 = Inr p'"
    by (auto split: sum.splits)
  from Cons.IH [OF r post_step_night [OF s Cons.prems(2)]] show ?case by simp
qed

lemma analyze_persona_night:
  assumes "analyze_persona U now ui = Inr p"
  shows "activity_patterns p = night_only (length (comments ui) + length (posts ui))"
proof -
  from analyze_persona_Inr [OF assms] obtain age p1 p2 where
    a: "analyze_comments U (comments ui) (new_persona ui age) = Inr p1"
    and b: "analyze_posts U (posts ui) p1 = Inr p2" and c: "p = rank p2"
    by blast
  have "activity_patterns (new_persona ui age) = night_only 0"
    by (simp add: new_persona_def night_only_def)
  from analyze_posts_night [OF b analyze_comments_night [OF a this]] show ?thesis
    by (simp add: c)
qed

text \<open>
  The date written by \<open>strftime\<close> is read back by \<open>strptime\<close> as the same day at
  midnight: the time of day of the item is lost on the way to the analysis.
\<close>
lemma digit_char_val: "digit_val U (digit_char n) = Some (n mod 10)"
proof -
  have "n mod 10 < 10" by simp
  then show ?thesis by (simp add: digit_val_def digit_char_def)
qed

lemma digit_char_not_dash: "digit_char n \<noteq> cp CHR ''-''"
  by (simp add: digit_char_def)

lemma last_digit: "10 * (n div 10) + n mod 10 = (n::nat)"
  by (rule div_mult_mod_eq [of n 10, simplified mult.commute [of _ 10]])

lemma two_digits_value:
  assumes "n < 100"
  shows "decimal U 0 (two_digits n) = Some n"
proof -
  have v: "decimal U 0 (two_digits n) = Some (10 * (n div 10 mod 10) + n mod 10)"
    by (simp add: two_digits_def digit_char_val)
  from assms have "n div 10 < 10" by simp
  then have "n div 10 mod 10 = n div 10" by simp
  then have "10 * (n div 10 mod 10) + n mod 10 = n"
    using last_digit [of n] by simp
  then show ?thesis by (simp only: v)
qed

lemma four_digits_value:
  assumes "n < 10000"
  shows "decimal U 0 (four_digits n) = Some n"
proof -
  have v: "decimal U 0 (four_digits n)
     = Some (10 * (10 * (10 * (n div 1000 mod 10) + n div 100 mod 10) + n div 10 mod 10) + n mod 10)"
    by (simp add: four_digits_def digit_char_val)
  have d2: "n div 100 = n div 10 div 10" and d3: "n div 1000 = n div 10 div 10 div 10"
    by (simp_all add: div_mult2_eq [symmetric])
  from assms have "n div 1000 < 10" by simp
  then have c: "n div 1000 mod 10 = n div 1000" by simp
  have b: "10 * (n div 1000) + n div 100 mod 10 = n div 100"
    using last_digit [of "n div 100"] by (simp add: d2 d3)
  have a: "10 * (n div 100) + n div 10 mod 10 = n div 10"
    using last_digit [of "n div 10"] by (simp add: d2)
  have "10 * (10 * (10 * (n div 1000 mod 10) + n div 100 mod 10) + n div 10 mod 10) + n mod 10 = n"
    using last_digit [of n] by (simp only: c b a)
  then show ?thesis by (simp only: v)
qed

lemma month_field_two:
  assumes "1 \<le> m" and "m \<le> 12"
  shows "month_field (two_digits m) = Some m"
proof -
  from assms have "m \<in> {1, 2, 3, 4, 5, 6, 7, 8, 9, 10, 11, 12}" by simp arith
  then show ?thesis
    by (auto simp: two_digits_def digit_char_def digit19_def)
qed

lemma day_field_two:
  assumes "1 \<le> d" and "d \<le> 31"
  shows "day_field U (two_digits d) = Some d"
proof -
  from assms have "d \<in> {1, 2, 3, 4, 5, 6, 7, 8, 9, 10, 11, 12, 13, 14, 15, 16, 17, 18, 19, 20,
      21, 22, 23, 24, 25, 26, 27, 28, 29, 30, 31}" by simp arith
  then show ?thesis
    by (auto simp: two_digits_def digit_char_def digit19_def digit_val_def)
qed

lemma days_in_month_le: "days_in_month y m \<le> 31"
  by (simp add: days_in_month_def)

lemma two_digits_shape:
  "takeWhile (\<lambda>c. c \<noteq> cp CHR ''-'') (two_digits n @ cp CHR ''-'' # rest) = two_digits n"
  "dropWhile (\<lambda>c. c \<noteq> cp CHR ''-'') (two_digits n @ cp CHR ''-'' # rest) = cp CHR ''-'' # rest"
  using digit_char_not_dash by (simp_all add: two_digits_def)

lemma strptime_strftime:
  assumes "valid_date dt"
  shows "strptime U (strftime dt)
     = Some \<lparr>year = year dt, month = month dt, day = day dt, hour = 0, minute = 0, second = 0\<rparr>"
proof -
  let ?y = "nat (year dt)" and ?m = "nat (month dt)" and ?d = "nat (day dt)"
  from assms have y: "?y < 10000" "int ?y = year dt" "1 \<le> ?y"
    and m: "1 \<le> ?m" "?m \<le> 12" "int ?m = month dt"
    and d: "1 \<le> ?d" "?d \<le> 31" "int ?d = day dt"
    using days_in_month_le [of "year dt" "month dt"] by (auto simp: valid_date_def)
  have vy: "year_field U (four_digits ?y) = Some ?y"
    using four_digits_value [OF y(1)] by (simp add: year_field_def four_digits_def)
  have vm: "month_field (two_digits ?m) = Some ?m"
    by (rule month_field_two [OF m(1) m(2)])
  have vd: "day_field U (two_digits ?d) = Some ?d"
    by (rule day_field_two [OF d(1) d(2)])
  define rest where "rest = two_digits ?m @ cp CHR ''-'' # two_digits ?d"
  have s: "strftime dt = four_digits ?y @ cp CHR ''-'' # rest"
    by (simp add: strftime_def rest_def u_simps)
  have l4: "length (four_digits ?y) = 4"
    by (simp add: four_digits_def)
  have t4: "take 4 (strftime dt) = four_digits ?y" "drop 4 (strftime dt) = cp CHR ''-'' # rest"
    "drop 5 (strftime dt) = rest"
    by (simp_all add: s l4)
  have tw: "takeWhile (\<lambda>c. c \<noteq> cp CHR ''-'') rest = two_digits ?m"
    and dw: "dropWhile (\<lambda>c. c \<noteq> cp CHR ''-'') rest = cp CHR ''-'' # two_digits ?d"
    by (simp_all only: rest_def two_digits_shape)
  from assms have ok: "day dt \<le> days_in_month (year dt) (month dt)"
    "1 \<le> year dt" "0 \<le> year dt" "0 \<le> month dt" "0 \<le> day dt"
    by (simp_all add: valid_date_def)
  show ?thesis
    unfolding strptime_def t4 tw dw Let_def
    using y(3) by (simp add: vy vm vd ok u_simps)
qed

text \<open>
  Claim C10. The creation time of every item reaches the analysis as a date without
  a time of day: what the fetcher writes for a date is read back as that day at
  midnight. So the hour read from it is 0 and its bucket is night. Hence, for
  every analysis that returns, the activity mapping has no key but night: it is empty
  when the account has no comment and no post, and otherwise it is the single entry
  night with the number of items, and the activity section of the report is the one
  line "Most active during night: 100.0% of activity".
\<close>

theorem night_only_activity:
  assumes "analyze_persona U now ui = Inr p"
  shows "(\<forall>dt. valid_date dt \<longrightarrow>
             strptime U (strftime dt)
               = Some \<lparr>year = year dt, month = month dt, day = day dt,
                        hour = 0, minute = 0, second = 0\<rparr>)
    \<and> (\<forall>s dt. strptime U s = Some dt \<longrightarrow> hour dt = 0 \<and> time_bucket (hour dt) = (u ''night''))
    \<and> set (map fst (activity_patterns p)) \<subseteq> {(u ''night'')}
    \<and> (activity_patterns p = [] \<and> comments ui = [] \<and> posts ui = []
       \<or> activity_patterns p = [((u ''night''), length (comments ui) + length (posts ui))]
         \<and> write_activity_patterns p =
            ((u ''== ACTIVITY PATTERNS =='') @ NL
             @ (u ''- Most active during night: 100.0% of activity'') @ NL @ NL, None))"
proof -
  have h: "\<forall>s dt. strptime U s = Some dt \<longrightarrow> hour dt = 0 \<and> time_bucket (hour dt) = (u ''night'')"
    by (auto simp: time_bucket_def dest: strptime_midnight)
  let ?n = "length (comments ui) + length (posts ui)"
  have a: "activity_patterns p = night_only ?n"
    by (rule analyze_persona_night [OF assms])
  have sub: "set (map fst (activity_patterns p)) \<subseteq> {(u ''night'')}"
    by (simp add: a night_only_def)
  have dis: "activity_patterns p = [] \<and> comments ui = [] \<and> posts ui = []
       \<or> activity_patterns p = [((u ''night''), ?n)]
         \<and> write_activity_patterns p =
            ((u ''== ACTIVITY PATTERNS =='') @ NL
             @ (u ''- Most active during night: 100.0% of activity'') @ NL @ NL, None)"
  proof (cases "?n = 0")
    case True
    with a show ?thesis by (simp add: night_only_def)
  next
    case False
    then have n: "0 < ?n" by simp
    with a have b: "activity_patterns p = [((u ''night''), ?n)]" by (simp add: night_only_def)
    from write_night_only [OF n b] b show ?thesis by simp
  qed
  have rt: "\<forall>dt. valid_date dt \<longrightarrow>
             strptime U (strftime dt)
               = Some \<lparr>year = year dt, month = month dt, day = day dt,
                        hour = 0, minute = 0, second = 0\<rparr>"
    by (simp add: strptime_strftime)
  from rt h sub dis show ?thesis by blast
qed

theorem night_only_activity_witness:
  "analyze_persona ex_unicode ex_now ex_both = Inr ex_both_persona
   \<and> valid_date ex_now
   \<and> strptime ex_unicode (strftime ex_now)
       = Some \<lparr>year = 2026, month = 11, day = 4, hour = 0, minute = 0, second = 0\<rparr>
   \<and> hour ex_now = 10
   \<and> activity_patterns ex_both_persona = [((u ''night''), 3)]
   \<and> write_activity_patterns ex_both_persona =
        ((u ''== ACTIVITY PATTERNS =='') @ NL
         @ (u ''- Most active during night: 100.0% of activity'') @ NL @ NL, None)"
proof -
  note run = night_only_activity [OF ex_both_analysis]
  have a: "activity_patterns ex_both_persona = [((u ''night''), 3)]"
    by (simp add: ex_both_persona_def)
  have c: "comments ex_both \<noteq> []"
    by (simp add: ex_both_def)
  have v: "valid_date ex_now"
    by (simp add: valid_date_def ex_now_def days_in_month_def)
  from run v have "strptime ex_unicode (strftime ex_now)
       = Some \<lparr>year = year ex_now, month = month ex_now, day = day ex_now,
                hour = 0, minute = 0, second = 0\<rparr>"
    by blast
  then have r: "strptime ex_unicode (strftime ex_now)
       = Some \<lparr>year = 2026, month = 11, day = 4, hour = 0, minute = 0, second = 0\<rparr>"
    by (simp add: ex_now_def)
  have h: "hour ex_now = 10"
    by (simp add: ex_now_def)
  from run c
  have w: "write_activity_patterns ex_both_persona =
        ((u ''== ACTIVITY PATTERNS =='') @ NL
         @ (u ''- Most active during night: 100.0% of activity'') @ NL @ NL, None)"
    by blast
  from ex_both_analysis v r h a w show ?thesis by blast
qed

end
